theory Spec2Isabelle
  imports Complex_Main
begin

section \<open>The settlement contract (FlashLoanArbitrage, Solidity 0.8.19)\<close>

text \<open>
  The contract of \<^verbatim>\<open>src/contracts/interfaces/IFlashLoanReceiverV3.sol\<close> is embedded
  function by function. A \<^verbatim>\<open>uint256\<close> is a natural number; every checked operation of
  Solidity 0.8 is written out and reverts with \<^verbatim>\<open>Panic(0x11)\<close> (17) when the result
  leaves the range, \<^verbatim>\<open>Panic(0x12)\<close> (18) on division by zero and \<^verbatim>\<open>Panic(0x32)\<close> (50)
  on an index out of bounds; an \<^verbatim>\<open>unchecked\<close> block wraps modulo \<open>2 ^ 256\<close>.
  Events are not state and are left out. Gas is not modelled, except that the value
  \<^verbatim>\<open>startGas - gasleft()\<close> read by \<^verbatim>\<open>executeOperation\<close> is an input.
\<close>

subsection \<open>Values, errors, checked arithmetic\<close>

type_synonym address = nat

definition MAX_UINT256 :: nat where
  "MAX_UINT256 = 2 ^ 256 - 1"

definition MAX_BPS :: nat where
  "MAX_BPS = 10000"

definition MIN_EXECUTION_DELAY :: nat where
  "MIN_EXECUTION_DELAY = 2"

text \<open>
  The custom errors of the contract, \<^verbatim>\<open>revert("...")\<close>/\<^verbatim>\<open>require\<close> with a message
  (\<open>Revert\<close>), the compiler's panics, and \<open>Reason e\<close> for \<^verbatim>\<open>revert(string(reason))\<close>,
  the re-throw of the caught error data \<open>e\<close> by \<^verbatim>\<open>executeOperation\<close>.
\<close>

datatype error =
    InvalidAmount nat string
  | InvalidAddress address string
  | InvalidConfiguration string
  | UnauthorizedCaller address address
  | InsufficientProfit nat nat
  | ExcessiveSlippage nat nat
  | TransactionTimeout
  | PriceDeviation nat nat
  | Revert string
  | Panic nat
  | Reason error

definition checked_add :: "nat \<Rightarrow> nat \<Rightarrow> error + nat" where
  "checked_add a b = (if a + b \<le> MAX_UINT256 then Inr (a + b) else Inl (Panic 17))"

definition checked_sub :: "nat \<Rightarrow> nat \<Rightarrow> error + nat" where
  "checked_sub a b = (if b \<le> a then Inr (a - b) else Inl (Panic 17))"

definition checked_mul :: "nat \<Rightarrow> nat \<Rightarrow> error + nat" where
  "checked_mul a b = (if a * b \<le> MAX_UINT256 then Inr (a * b) else Inl (Panic 17))"

definition checked_div :: "nat \<Rightarrow> nat \<Rightarrow> error + nat" where
  "checked_div a b = (if b = 0 then Inl (Panic 18) else Inr (a div b))"

text \<open>Reading \<^verbatim>\<open>xs[i]\<close> of a memory array.\<close>

definition index :: "nat list \<Rightarrow> nat \<Rightarrow> error + nat" where
  "index xs i = (if i < length xs then Inr (xs ! i) else Inl (Panic 50))"

text \<open>Sequencing of computations that may revert.\<close>

definition sbind :: "error + 'a \<Rightarrow> ('a \<Rightarrow> error + 'b) \<Rightarrow> error + 'b" where
  "sbind r f = (case r of Inl e \<Rightarrow> Inl e | Inr a \<Rightarrow> f a)"

subsection \<open>Storage, the outside world, message calls\<close>

text \<open>
  The storage variables of the contract, with the state of the inherited
  \<^verbatim>\<open>Ownable\<close> (\<open>owner\<close>), \<^verbatim>\<open>Pausable\<close> (\<open>paused\<close>) and \<^verbatim>\<open>ReentrancyGuard\<close>
  (\<open>entered\<close>: the status is \<^verbatim>\<open>_ENTERED\<close>). \<^verbatim>\<open>hasApprovedToken\<close> is never read or
  written by the contract and is left out.
\<close>

record storage =
  owner :: address
  paused :: bool
  entered :: bool
  intermediateToken :: address
  maxPriceDeviation :: nat
  maxSlippage :: nat
  minProfitBps :: nat
  maxFlashLoanAmount :: nat
  lastExecutionTime :: nat
  totalProfitGenerated :: nat
  totalGasUsed :: nat
  successfulTrades :: nat
  failedTrades :: nat
  lastKnownPrice :: "address \<Rightarrow> nat"

text \<open>The immutables, and the contract's own address \<^verbatim>\<open>address(this)\<close>.\<close>

record immutables =
  this :: address
  WETH :: address
  provider :: address
  lendingPool :: address
  uniswapRouter :: address

text \<open>What a call reads of its block, and the gas the callback has used when it reads it.\<close>

record blockctx =
  number :: nat
  timestamp :: nat
  gasUsed :: nat

text \<open>
  The state of the chain is the contract's storage and the state \<open>'e\<close> of everything
  else (token ledgers, the venue, the lender).
\<close>

record 'e world =
  store :: storage
  ext :: 'e

text \<open>
  The collaborators are only interfaces in the repository (\<^verbatim>\<open>IUniswapV2Router02\<close>,
  \<^verbatim>\<open>IERC20\<close>, \<^verbatim>\<open>IPool\<close>), so their behaviour is a parameter: each external call is a
  function of the outside state that reverts (\<open>Inl\<close>) or returns, with the new outside
  state when it is not a view. An external call never re-enters the contract, other
  than the lender's callback. \<open>lend\<close> and \<open>collect\<close> are the two halves of
  \<^verbatim>\<open>flashLoanSimple\<close>, before and after the callback; \<open>lend\<close> returns the premium.
\<close>

record 'e env =
  getAmountsOut :: "'e \<Rightarrow> nat \<Rightarrow> address list \<Rightarrow> error + nat list"
  swapExactTokensForTokens ::
    "address \<Rightarrow> nat \<Rightarrow> nat \<Rightarrow> address list \<Rightarrow> address \<Rightarrow> nat \<Rightarrow> 'e \<Rightarrow> error + nat list \<times> 'e"
  balanceOf :: "'e \<Rightarrow> address \<Rightarrow> address \<Rightarrow> error + nat"
  approve :: "address \<Rightarrow> address \<Rightarrow> address \<Rightarrow> nat \<Rightarrow> 'e \<Rightarrow> error + unit \<times> 'e"
  transfer :: "address \<Rightarrow> address \<Rightarrow> address \<Rightarrow> nat \<Rightarrow> 'e \<Rightarrow> error + unit \<times> 'e"
  lend :: "address \<Rightarrow> address \<Rightarrow> nat \<Rightarrow> 'e \<Rightarrow> error + nat \<times> 'e"
  collect :: "address \<Rightarrow> address \<Rightarrow> nat \<Rightarrow> nat \<Rightarrow> 'e \<Rightarrow> error + unit \<times> 'e"

text \<open>
  A function body runs on the world and ends by returning (\<open>Inr\<close>) or reverting
  (\<open>Inl\<close>), in the world as it stands at that point. \<open>call\<close> is the message call of the
  EVM: when the callee reverts, the state is the one before the call.
\<close>

type_synonym ('e, 'a) exec = "'e world \<Rightarrow> (error + 'a) \<times> 'e world"

definition ret :: "'a \<Rightarrow> ('e, 'a) exec" where
  "ret a w = (Inr a, w)"

definition throw :: "error \<Rightarrow> ('e, 'a) exec" where
  "throw e w = (Inl e, w)"

definition thn :: "('e, 'a) exec \<Rightarrow> ('a \<Rightarrow> ('e, 'b) exec) \<Rightarrow> ('e, 'b) exec" where
  "thn m f w = (case m w of (Inl e, w1) \<Rightarrow> (Inl e, w1) | (Inr a, w1) \<Rightarrow> f a w1)"

definition lift :: "error + 'a \<Rightarrow> ('e, 'a) exec" where
  "lift r w = (r, w)"

definition gets :: "(storage \<Rightarrow> 'a) \<Rightarrow> ('e, 'a) exec" where
  "gets f w = (Inr (f (store w)), w)"

definition modify :: "(storage \<Rightarrow> storage) \<Rightarrow> ('e, unit) exec" where
  "modify f w = (Inr (), w\<lparr>store := f (store w)\<rparr>)"

definition view :: "('e \<Rightarrow> error + 'a) \<Rightarrow> ('e, 'a) exec" where
  "view f w = (f (ext w), w)"

definition extcall :: "('e \<Rightarrow> error + 'a \<times> 'e) \<Rightarrow> ('e, 'a) exec" where
  "extcall f w = (case f (ext w) of Inl e \<Rightarrow> (Inl e, w) | Inr (a, e') \<Rightarrow> (Inr a, w\<lparr>ext := e'\<rparr>))"

definition call :: "('e, 'a) exec \<Rightarrow> ('e, 'a) exec" where
  "call m w = (case m w of (Inl e, w1) \<Rightarrow> (Inl e, w) | (Inr a, w1) \<Rightarrow> (Inr a, w1))"

text \<open>\<^verbatim>\<open>try this.f(...) returns (...) { } catch (bytes memory reason) { handler }\<close>\<close>

definition try_catch :: "('e, 'a) exec \<Rightarrow> (error \<Rightarrow> ('e, 'a) exec) \<Rightarrow> ('e, 'a) exec" where
  "try_catch m h w = (case call m w of (Inl e, w1) \<Rightarrow> h e w1 | (Inr a, w1) \<Rightarrow> (Inr a, w1))"

subsection \<open>Utility functions\<close>

definition calculateMinAmountOut :: "storage \<Rightarrow> nat \<Rightarrow> error + nat" where
  "calculateMinAmountOut s amount =
     sbind (checked_mul amount (maxSlippage s)) (\<lambda>p.
     sbind (checked_div p MAX_BPS) (\<lambda>d.
     checked_sub amount d))"

definition calculateSlippage :: "nat \<Rightarrow> nat \<Rightarrow> error + nat" where
  "calculateSlippage expected actual =
     (if actual \<ge> expected then Inr 0
      else sbind (checked_sub expected actual) (\<lambda>d.
           sbind (checked_mul d MAX_BPS) (\<lambda>p.
           checked_div p expected)))"

subsection \<open>The two trade legs and the profit check\<close>

definition executeFirstTrade ::
  "'e env \<Rightarrow> immutables \<Rightarrow> blockctx \<Rightarrow> address \<Rightarrow> nat \<Rightarrow> ('e, nat) exec" where
  "executeFirstTrade env c ctx asset amount =
     thn (gets intermediateToken) (\<lambda>inter.
     thn (view (\<lambda>e. getAmountsOut env e amount [asset, inter])) (\<lambda>amountsOut.
     thn (lift (index amountsOut 1)) (\<lambda>quoted.
     thn (gets (\<lambda>s. calculateMinAmountOut s quoted)) (\<lambda>m.
     thn (lift m) (\<lambda>minAmountOut.
     thn (lift (checked_add (timestamp ctx) 300)) (\<lambda>deadline.
     thn (extcall (swapExactTokensForTokens env (this c) amount minAmountOut
            [asset, inter] (this c) deadline)) (\<lambda>received.
     thn (lift (index received 1)) (\<lambda>r.
     if r < minAmountOut then throw (ExcessiveSlippage minAmountOut r)
     else ret r))))))))"

definition executeSecondTrade ::
  "'e env \<Rightarrow> immutables \<Rightarrow> blockctx \<Rightarrow> address \<Rightarrow> nat \<Rightarrow> nat \<Rightarrow> ('e, nat) exec" where
  "executeSecondTrade env c ctx asset amount minimumReturn =
     thn (gets intermediateToken) (\<lambda>inter.
     thn (view (\<lambda>e. getAmountsOut env e amount [inter, asset])) (\<lambda>amountsOut.
     thn (lift (index amountsOut 1)) (\<lambda>quoted.
     thn (gets (\<lambda>s. calculateMinAmountOut s quoted)) (\<lambda>m.
     thn (lift m) (\<lambda>minAmountOut.
     if minAmountOut < minimumReturn then throw (InsufficientProfit minAmountOut minimumReturn)
     else
     thn (lift (checked_add (timestamp ctx) 300)) (\<lambda>deadline.
     thn (extcall (swapExactTokensForTokens env (this c) amount minAmountOut
            [inter, asset] (this c) deadline)) (\<lambda>received.
     lift (index received 1))))))))"

text \<open>
  \<^verbatim>\<open>_executeArbitrage\<close> is external; \<open>sender\<close> is its \<^verbatim>\<open>msg.sender\<close>. The addition to
  \<^verbatim>\<open>totalProfitGenerated\<close> stands in an \<^verbatim>\<open>unchecked\<close> block.
\<close>

definition executeArbitrage ::
  "'e env \<Rightarrow> immutables \<Rightarrow> blockctx \<Rightarrow> address \<Rightarrow> address \<Rightarrow> nat \<Rightarrow> nat \<Rightarrow> ('e, bool) exec" where
  "executeArbitrage env c ctx sender asset amount amountOwed =
     (if sender \<noteq> this c then throw (UnauthorizedCaller sender (this c))
      else
      thn (executeFirstTrade env c ctx asset amount) (\<lambda>intermediateAmount.
      thn (executeSecondTrade env c ctx asset intermediateAmount amountOwed) (\<lambda>finalAmount.
      thn (lift (checked_sub finalAmount amountOwed)) (\<lambda>profit.
      thn (lift (checked_mul profit MAX_BPS)) (\<lambda>lhs.
      thn (gets minProfitBps) (\<lambda>bps.
      thn (lift (checked_mul amountOwed bps)) (\<lambda>rhs.
      if lhs < rhs then throw (InsufficientProfit profit (rhs div MAX_BPS))
      else
      thn (modify (\<lambda>s. s\<lparr>totalProfitGenerated :=
             (totalProfitGenerated s + profit) mod 2 ^ 256\<rparr>)) (\<lambda>_.
      ret True))))))))"

subsection \<open>Price checks\<close>

definition getCurrentPrice :: "'e env \<Rightarrow> immutables \<Rightarrow> address \<Rightarrow> ('e, nat) exec" where
  "getCurrentPrice env c token =
     thn (view (\<lambda>e. getAmountsOut env e (10 ^ 18) [token, WETH c])) (\<lambda>amounts.
     lift (index amounts 1))"

definition calculatePriceImpact :: "'e env \<Rightarrow> immutables \<Rightarrow> address \<Rightarrow> nat \<Rightarrow> ('e, nat) exec" where
  "calculatePriceImpact env c token amount =
     thn (gets (\<lambda>s. lastKnownPrice s token)) (\<lambda>last.
     if last = 0 then ret 0
     else
     thn (getCurrentPrice env c token) (\<lambda>currentPrice.
     lift (calculateSlippage last currentPrice)))"

definition checkPriceDeviation ::
  "'e env \<Rightarrow> immutables \<Rightarrow> address \<Rightarrow> nat \<Rightarrow> ('e, nat list) exec" where
  "checkPriceDeviation env c asset amount =
     thn (view (\<lambda>e. getAmountsOut env e (10 ^ 18) [asset, WETH c])) (\<lambda>amountsOut.
     thn (lift (index amountsOut 1)) (\<lambda>currentPrice.
     thn (gets (\<lambda>s. lastKnownPrice s asset)) (\<lambda>last.
     thn (if last \<noteq> 0 then
            thn (lift (calculateSlippage last currentPrice)) (\<lambda>deviation.
            thn (gets maxPriceDeviation) (\<lambda>maxDev.
            if deviation > maxDev then throw (PriceDeviation last currentPrice)
            else ret ()))
          else ret ()) (\<lambda>_.
     thn (modify (\<lambda>s. s\<lparr>lastKnownPrice := (lastKnownPrice s)(asset := currentPrice)\<rparr>)) (\<lambda>_.
     ret amountsOut)))))"

definition calculateEstimatedProfit ::
  "'e env \<Rightarrow> address \<Rightarrow> nat \<Rightarrow> nat list \<Rightarrow> ('e, nat) exec" where
  "calculateEstimatedProfit env asset amount amountsOut =
     thn (gets intermediateToken) (\<lambda>inter.
     thn (view (\<lambda>e. getAmountsOut env e amount [asset, inter])) (\<lambda>firstTrade.
     thn (lift (index firstTrade 1)) (\<lambda>mid.
     thn (view (\<lambda>e. getAmountsOut env e mid [inter, asset])) (\<lambda>secondTrade.
     thn (lift (index secondTrade 1)) (\<lambda>back_amount.
     ret (if back_amount > amount then back_amount - amount else 0))))))"

text \<open>Both approvals stand in an \<^verbatim>\<open>unchecked\<close> block: \<^verbatim>\<open>amount * 2\<close> wraps.\<close>

definition setupFlashLoan :: "'e env \<Rightarrow> immutables \<Rightarrow> address \<Rightarrow> nat \<Rightarrow> ('e, unit) exec" where
  "setupFlashLoan env c asset amount =
     thn (extcall (approve env asset (this c) (lendingPool c) 0)) (\<lambda>_.
     extcall (approve env asset (this c) (lendingPool c) ((amount * 2) mod 2 ^ 256)))"

subsection \<open>The lender's callback\<close>

text \<open>
  \<open>sender\<close> is \<^verbatim>\<open>msg.sender\<close>. The sum \<^verbatim>\<open>amount + premium\<close> is an argument of the call
  under \<^verbatim>\<open>try\<close> and is evaluated before it. The call \<^verbatim>\<open>this._executeArbitrage\<close> is a
  message call of the contract to itself. The \<^verbatim>\<open>catch\<close> clause counts the failure and
  reverts with the caught data. The arguments of the \<^verbatim>\<open>TradeMetrics\<close> event are computed
  (they can revert) although the event itself is not kept.
\<close>

definition executeOperation ::
  "'e env \<Rightarrow> immutables \<Rightarrow> blockctx \<Rightarrow> address \<Rightarrow> address \<Rightarrow> nat \<Rightarrow> nat \<Rightarrow> address
     \<Rightarrow> ('e, bool) exec" where
  "executeOperation env c ctx sender asset amount premium initiator =
     (if sender \<noteq> lendingPool c then throw (UnauthorizedCaller sender (lendingPool c))
      else if initiator \<noteq> this c then throw (UnauthorizedCaller initiator (this c))
      else
      thn (lift (checked_add amount premium)) (\<lambda>amountOwed.
      thn (try_catch (executeArbitrage env c ctx (this c) asset amount amountOwed)
             (\<lambda>reason.
                thn (gets failedTrades) (\<lambda>n.
                thn (lift (checked_add n 1)) (\<lambda>n1.
                thn (modify (\<lambda>s. s\<lparr>failedTrades := n1\<rparr>)) (\<lambda>_.
                throw (Reason reason)))))) (\<lambda>success.
      thn (if success then
             thn (gets successfulTrades) (\<lambda>n.
             thn (lift (checked_add n 1)) (\<lambda>n1.
             thn (modify (\<lambda>s. s\<lparr>successfulTrades := n1\<rparr>)) (\<lambda>_.
             thn (gets totalGasUsed) (\<lambda>g.
             thn (lift (checked_add g (gasUsed ctx))) (\<lambda>g1.
             thn (modify (\<lambda>s. s\<lparr>totalGasUsed := g1\<rparr>)) (\<lambda>_.
             thn (view (\<lambda>e. balanceOf env e asset (this c))) (\<lambda>balance.
             thn (lift (calculateSlippage amount balance)) (\<lambda>_.
             thn (calculatePriceImpact env c asset amount) (\<lambda>_.
             ret ())))))))))
           else ret ()) (\<lambda>_.
      ret success))))"

subsection \<open>The lender\<close>

text \<open>
  \<^verbatim>\<open>flashLoanSimple\<close> as \<^verbatim>\<open>MockAavePool\<close> runs it: hand out the funds, call
  \<^verbatim>\<open>executeOperation\<close> on the receiver with the pool as \<^verbatim>\<open>msg.sender\<close> and the pool's own
  caller as initiator, require that it returns true, pull the repayment. The token
  movements are the environment's \<open>lend\<close> and \<open>collect\<close>.
\<close>

definition flashLoanSimple ::
  "'e env \<Rightarrow> (address \<Rightarrow> nat \<Rightarrow> nat \<Rightarrow> address \<Rightarrow> ('e, bool) exec)
     \<Rightarrow> address \<Rightarrow> address \<Rightarrow> address \<Rightarrow> nat \<Rightarrow> ('e, unit) exec" where
  "flashLoanSimple env callback caller receiverAddress asset amount =
     thn (extcall (lend env receiverAddress asset amount)) (\<lambda>premium.
     thn (call (callback asset amount premium caller)) (\<lambda>ok.
     if \<not> ok then throw (Revert ''Flash loan execution failed'')
     else extcall (collect env receiverAddress asset amount premium)))"

subsection \<open>Modifiers\<close>

definition nonReentrant :: "('e, 'a) exec \<Rightarrow> ('e, 'a) exec" where
  "nonReentrant body =
     thn (gets entered) (\<lambda>en.
     if en then throw (Revert ''ReentrancyGuard: reentrant call'')
     else
     thn (modify (\<lambda>s. s\<lparr>entered := True\<rparr>)) (\<lambda>_.
     thn body (\<lambda>r.
     thn (modify (\<lambda>s. s\<lparr>entered := False\<rparr>)) (\<lambda>_.
     ret r))))"

definition whenNotPaused :: "('e, 'a) exec \<Rightarrow> ('e, 'a) exec" where
  "whenNotPaused body =
     thn (gets paused) (\<lambda>p.
     if p then throw (Revert ''Pausable: paused'') else body)"

definition onlyOwner :: "address \<Rightarrow> ('e, 'a) exec \<Rightarrow> ('e, 'a) exec" where
  "onlyOwner sender body =
     thn (gets owner) (\<lambda>ow.
     if ow \<noteq> sender then throw (Revert ''Ownable: caller is not the owner'') else body)"

subsection \<open>The entry point\<close>

text \<open>
  \<^verbatim>\<open>initiateFlashLoan\<close> carries the modifiers \<^verbatim>\<open>nonReentrant whenNotPaused\<close> and no other:
  its body never reads \<^verbatim>\<open>msg.sender\<close>. \<^verbatim>\<open>this.POOL()\<close> and \<^verbatim>\<open>this.ADDRESSES_PROVIDER()\<close>
  return the immutables.
\<close>

definition POOL :: "immutables \<Rightarrow> address" where
  "POOL c = lendingPool c"

definition ADDRESSES_PROVIDER :: "immutables \<Rightarrow> address" where
  "ADDRESSES_PROVIDER c = provider c"

definition initiateFlashLoan_body ::
  "'e env \<Rightarrow> immutables \<Rightarrow> blockctx \<Rightarrow> address \<Rightarrow> nat \<Rightarrow> ('e, unit) exec" where
  "initiateFlashLoan_body env c ctx asset amount =
     thn (gets intermediateToken) (\<lambda>inter.
     if inter = 0 then throw (InvalidAddress inter ''Intermediate token not set'')
     else if amount = 0 then throw (InvalidAmount amount ''Amount must be greater than 0'')
     else
     thn (gets maxFlashLoanAmount) (\<lambda>maxAmount.
     if amount > maxAmount then throw (InvalidAmount amount ''Amount exceeds maximum'')
     else
     thn (gets lastExecutionTime) (\<lambda>last.
     thn (lift (checked_sub (number ctx) last)) (\<lambda>elapsed.
     if elapsed < MIN_EXECUTION_DELAY then throw (Revert ''Too soon'')
     else
     thn (modify (\<lambda>s. s\<lparr>lastExecutionTime := number ctx\<rparr>)) (\<lambda>_.
     if lendingPool c \<noteq> POOL c then throw (InvalidConfiguration ''Invalid pool'')
     else if provider c \<noteq> ADDRESSES_PROVIDER c
       then throw (InvalidConfiguration ''Invalid provider'')
     else
     thn (checkPriceDeviation env c asset amount) (\<lambda>amountsOut.
     thn (calculateEstimatedProfit env asset amount amountsOut) (\<lambda>estimatedProfit.
     thn (setupFlashLoan env c asset amount) (\<lambda>_.
     flashLoanSimple env (executeOperation env c ctx (lendingPool c))
       (this c) (this c) asset amount))))))))"

definition initiateFlashLoan ::
  "'e env \<Rightarrow> immutables \<Rightarrow> blockctx \<Rightarrow> address \<Rightarrow> nat \<Rightarrow> ('e, unit) exec" where
  "initiateFlashLoan env c ctx asset amount =
     nonReentrant (whenNotPaused (initiateFlashLoan_body env c ctx asset amount))"

subsection \<open>Configuration, emergency and view functions\<close>

definition setMaxFlashLoanAmount :: "address \<Rightarrow> nat \<Rightarrow> ('e, unit) exec" where
  "setMaxFlashLoanAmount sender newAmount =
     onlyOwner sender
       (if newAmount = 0 then throw (InvalidAmount newAmount ''Amount cannot be 0'')
        else modify (\<lambda>s. s\<lparr>maxFlashLoanAmount := newAmount\<rparr>))"

definition setMinProfitBps :: "address \<Rightarrow> nat \<Rightarrow> ('e, unit) exec" where
  "setMinProfitBps sender newBps =
     onlyOwner sender
       (if newBps = 0 \<or> newBps \<ge> MAX_BPS then throw (InvalidAmount newBps ''Invalid bps'')
        else modify (\<lambda>s. s\<lparr>minProfitBps := newBps\<rparr>))"

definition setMaxPriceDeviation :: "address \<Rightarrow> nat \<Rightarrow> ('e, unit) exec" where
  "setMaxPriceDeviation sender newDeviation =
     onlyOwner sender
       (if newDeviation = 0 \<or> newDeviation \<ge> MAX_BPS
          then throw (InvalidAmount newDeviation ''Invalid deviation'')
        else modify (\<lambda>s. s\<lparr>maxPriceDeviation := newDeviation\<rparr>))"

definition setMaxSlippage :: "address \<Rightarrow> nat \<Rightarrow> ('e, unit) exec" where
  "setMaxSlippage sender newSlippage =
     onlyOwner sender
       (if newSlippage = 0 \<or> newSlippage \<ge> MAX_BPS
          then throw (InvalidAmount newSlippage ''Invalid slippage'')
        else modify (\<lambda>s. s\<lparr>maxSlippage := newSlippage\<rparr>))"

definition setIntermediateToken :: "address \<Rightarrow> address \<Rightarrow> ('e, unit) exec" where
  "setIntermediateToken sender token =
     onlyOwner sender
       (if token = 0 then throw (InvalidAddress token ''Invalid token address'')
        else modify (\<lambda>s. s\<lparr>intermediateToken := token\<rparr>))"

definition emergencyWithdraw ::
  "'e env \<Rightarrow> immutables \<Rightarrow> address \<Rightarrow> address \<Rightarrow> address \<Rightarrow> ('e, unit) exec" where
  "emergencyWithdraw env c sender token to =
     onlyOwner sender (nonReentrant
       (if token = 0 then throw (InvalidAddress token ''Invalid token'')
        else if to = 0 then throw (InvalidAddress to ''Invalid recipient'')
        else
        thn (view (\<lambda>e. balanceOf env e token (this c))) (\<lambda>balance.
        if balance = 0 then throw (InvalidAmount balance ''No tokens to withdraw'')
        else extcall (transfer env token (this c) to balance))))"

text \<open>The result is \<open>(totalProfit, avgGasUsed, successRate, totalTrades)\<close>.\<close>

definition getTradeStatistics :: "storage \<Rightarrow> error + nat \<times> nat \<times> nat \<times> nat" where
  "getTradeStatistics s =
     sbind (checked_add (successfulTrades s) (failedTrades s)) (\<lambda>totalTrades.
     sbind (if totalTrades > 0 then checked_div (totalGasUsed s) totalTrades else Inr 0)
       (\<lambda>avgGasUsed.
     sbind (if totalTrades > 0
            then sbind (checked_mul (successfulTrades s) MAX_BPS) (\<lambda>p. checked_div p totalTrades)
            else Inr 0) (\<lambda>successRate.
     Inr (totalProfitGenerated s, avgGasUsed, successRate, totalTrades))))"

text \<open>
  The functions inherited from \<^verbatim>\<open>Ownable\<close> (OpenZeppelin 4: the test suite expects its
  message \<^verbatim>\<open>Ownable: caller is not the owner\<close>). \<^verbatim>\<open>Pausable\<close> has internal functions
  only, and the contract calls none of them.
\<close>

definition transferOwnership :: "address \<Rightarrow> address \<Rightarrow> ('e, unit) exec" where
  "transferOwnership sender newOwner =
     onlyOwner sender
       (if newOwner = 0 then throw (Revert ''Ownable: new owner is the zero address'')
        else modify (\<lambda>s. s\<lparr>owner := newOwner\<rparr>))"

definition renounceOwnership :: "address \<Rightarrow> ('e, unit) exec" where
  "renounceOwnership sender = onlyOwner sender (modify (\<lambda>s. s\<lparr>owner := 0\<rparr>))"

text \<open>The constructor: the checks in the order of the source, then the first storage.\<close>

definition constructor :: "address \<Rightarrow> immutables \<Rightarrow> nat \<Rightarrow> nat \<Rightarrow> error + storage" where
  "constructor deployer c maxAmount minBps =
     (if maxAmount = 0 then Inl (InvalidAmount maxAmount ''Max flash loan amount cannot be 0'')
      else if minBps = 0 \<or> minBps \<ge> MAX_BPS
        then Inl (InvalidAmount minBps ''Invalid min profit bps'')
      else if provider c = 0 then Inl (InvalidAddress (provider c) ''Invalid pool provider'')
      else if uniswapRouter c = 0 then Inl (InvalidAddress (uniswapRouter c) ''Invalid router'')
      else if WETH c = 0 then Inl (InvalidAddress (WETH c) ''Invalid WETH'')
      else Inr \<lparr>owner = deployer, paused = False, entered = False, intermediateToken = 0,
             maxPriceDeviation = 500, maxSlippage = 100, minProfitBps = minBps,
             maxFlashLoanAmount = maxAmount, lastExecutionTime = 0,
             totalProfitGenerated = 0, totalGasUsed = 0, successfulTrades = 0,
             failedTrades = 0, lastKnownPrice = (\<lambda>_. 0)\<rparr>)"

subsection \<open>Transactions and reachable states\<close>

text \<open>
  Every state-changing external function of the contract, called by \<open>sender\<close>. A
  transaction is a message call: it commits or leaves the world as it was.
\<close>

datatype txn =
    SetMaxFlashLoanAmount nat
  | SetMinProfitBps nat
  | SetMaxPriceDeviation nat
  | SetMaxSlippage nat
  | SetIntermediateToken address
  | InitiateFlashLoan address nat
  | ExecuteOperation address nat nat address
  | ExecuteArbitrage address nat nat
  | EmergencyWithdraw address address
  | TransferOwnership address
  | RenounceOwnership

definition discard :: "('e, 'a) exec \<Rightarrow> ('e, unit) exec" where
  "discard m = thn m (\<lambda>_. ret ())"

fun dispatch :: "'e env \<Rightarrow> immutables \<Rightarrow> blockctx \<Rightarrow> address \<Rightarrow> txn \<Rightarrow> ('e, unit) exec" where
  "dispatch env c ctx sender (SetMaxFlashLoanAmount n) = setMaxFlashLoanAmount sender n"
| "dispatch env c ctx sender (SetMinProfitBps n) = setMinProfitBps sender n"
| "dispatch env c ctx sender (SetMaxPriceDeviation n) = setMaxPriceDeviation sender n"
| "dispatch env c ctx sender (SetMaxSlippage n) = setMaxSlippage sender n"
| "dispatch env c ctx sender (SetIntermediateToken a) = setIntermediateToken sender a"
| "dispatch env c ctx sender (InitiateFlashLoan asset amount) =
     initiateFlashLoan env c ctx asset amount"
| "dispatch env c ctx sender (ExecuteOperation asset amount premium initiator) =
     discard (executeOperation env c ctx sender asset amount premium initiator)"
| "dispatch env c ctx sender (ExecuteArbitrage asset amount amountOwed) =
     discard (executeArbitrage env c ctx sender asset amount amountOwed)"
| "dispatch env c ctx sender (EmergencyWithdraw token to) =
     emergencyWithdraw env c sender token to"
| "dispatch env c ctx sender (TransferOwnership a) = transferOwnership sender a"
| "dispatch env c ctx sender RenounceOwnership = renounceOwnership sender"

definition transact ::
  "'e env \<Rightarrow> immutables \<Rightarrow> blockctx \<Rightarrow> address \<Rightarrow> txn \<Rightarrow> ('e, unit) exec" where
  "transact env c ctx sender t = call (dispatch env c ctx sender t)"

text \<open>
  The states the contract can be in: the one the constructor leaves, then any
  transaction by anyone in any block, and any change of the outside world in between.
\<close>

inductive reachable :: "'e env \<Rightarrow> immutables \<Rightarrow> 'e world \<Rightarrow> bool" for env c where
  deployed: "constructor deployer c maxAmount minBps = Inr s
     \<Longrightarrow> reachable env c \<lparr>store = s, ext = e\<rparr>"
| transacted: "reachable env c w \<Longrightarrow> transact env c ctx sender t w = (r, w')
     \<Longrightarrow> reachable env c w'"
| outside: "reachable env c w \<Longrightarrow> reachable env c (w\<lparr>ext := e\<rparr>)"

subsection \<open>The mock venue and the mock lender of the repository\<close>

text \<open>
  An instance of the environment, from \<^verbatim>\<open>MockUniswapV2Router02\<close> and
  \<^verbatim>\<open>MockAavePool\<close>: the outside state is the token ledger (token, then holder); the
  exchange rates are those set by \<^verbatim>\<open>setPrice\<close>. The tokens themselves are not in the
  repository: a transfer moves the amount when the balance covers it and reverts
  otherwise, and allowances are not tracked.
\<close>

type_synonym ledger = "address \<Rightarrow> address \<Rightarrow> nat"

definition move :: "address \<Rightarrow> address \<Rightarrow> address \<Rightarrow> nat \<Rightarrow> ledger \<Rightarrow> error + unit \<times> ledger" where
  "move token src dst amount l =
     (if l token src < amount then Inl (Revert ''ERC20: transfer amount exceeds balance'')
      else
        (let b1 = (l token)(src := l token src - amount);
             b2 = b1(dst := b1 dst + amount)
         in Inr ((), l(token := b2))))"

fun mock_amounts :: "(address \<Rightarrow> address \<Rightarrow> nat) \<Rightarrow> nat \<Rightarrow> address list \<Rightarrow> error + nat list" where
  "mock_amounts rate a (x # y # rest) =
     (if rate x y = 0 then Inl (Revert ''Rate not set'')
      else sbind (checked_mul a (rate x y)) (\<lambda>p.
           sbind (mock_amounts rate (p div 10 ^ 18) (y # rest)) (\<lambda>xs.
           Inr (a # xs))))"
| "mock_amounts rate a path = Inr [a]"

definition mock_getAmountsOut ::
  "(address \<Rightarrow> address \<Rightarrow> nat) \<Rightarrow> ledger \<Rightarrow> nat \<Rightarrow> address list \<Rightarrow> error + nat list" where
  "mock_getAmountsOut rate l amountIn path =
     (if length path < 2 then Inl (Revert ''Invalid path'')
      else mock_amounts rate amountIn path)"

definition mock_swapExactTokensForTokens ::
  "(address \<Rightarrow> address \<Rightarrow> nat) \<Rightarrow> address \<Rightarrow> nat \<Rightarrow> address \<Rightarrow> nat \<Rightarrow> nat \<Rightarrow> address list
     \<Rightarrow> address \<Rightarrow> nat \<Rightarrow> ledger \<Rightarrow> error + nat list \<times> ledger" where
  "mock_swapExactTokensForTokens rate router now caller amountIn amountOutMin path to deadline l =
     (if length path < 2 then Inl (Revert ''Invalid path'')
      else if deadline < now then Inl (Revert ''Expired'')
      else sbind (mock_amounts rate amountIn path) (\<lambda>amounts.
           if last amounts < amountOutMin then Inl (Revert ''Insufficient output amount'')
           else sbind (move (hd path) caller router amountIn l) (\<lambda>(u, l1).
                sbind (move (last path) router to (last amounts) l1) (\<lambda>(u, l2).
                Inr (amounts, l2)))))"

text \<open>\<^verbatim>\<open>MockAavePool.flashLoanSimple\<close> before the callback (the premium is 0) and after it.\<close>

definition mock_lend ::
  "address \<Rightarrow> bool \<Rightarrow> address \<Rightarrow> address \<Rightarrow> nat \<Rightarrow> ledger \<Rightarrow> error + nat \<times> ledger" where
  "mock_lend pool approved receiver asset amount l =
     (if \<not> approved then Inl (Revert ''MockAavePool: receiver not approved'')
      else if l asset pool < amount then Inl (Revert ''Insufficient balance'')
      else sbind (move asset pool receiver amount l) (\<lambda>(u, l1). Inr (0, l1)))"

definition mock_collect ::
  "address \<Rightarrow> address \<Rightarrow> address \<Rightarrow> nat \<Rightarrow> nat \<Rightarrow> ledger \<Rightarrow> error + unit \<times> ledger" where
  "mock_collect pool receiver asset amount premium l = move asset receiver pool amount l"

definition mock_env :: "(address \<Rightarrow> address \<Rightarrow> nat) \<Rightarrow> immutables \<Rightarrow> nat \<Rightarrow> ledger env" where
  "mock_env rate c now =
     \<lparr>getAmountsOut = mock_getAmountsOut rate,
      swapExactTokensForTokens = mock_swapExactTokensForTokens rate (uniswapRouter c) now,
      balanceOf = (\<lambda>l token holder. Inr (l token holder)),
      approve = (\<lambda>token holder spender amount l. Inr ((), l)),
      transfer = move,
      lend = mock_lend (lendingPool c) True,
      collect = mock_collect (lendingPool c)\<rparr>"

text \<open>
  A deployment for the examples: token 1 is the asset, token 2 the intermediate token,
  token 3 is WETH; the contract is account 10, the lender 21, the venue 22, the owner 100.
  One unit of the asset buys 1.2 units of the intermediate token, which sells one for one.
\<close>

definition c0 :: immutables where
  "c0 = \<lparr>this = 10, WETH = 3, provider = 20, lendingPool = 21, uniswapRouter = 22\<rparr>"

definition rate0 :: "address \<Rightarrow> address \<Rightarrow> nat" where
  "rate0 x y =
     (if x = 1 \<and> y = 3 then 10 ^ 18
      else if x = 1 \<and> y = 2 then 12 * 10 ^ 17
      else if x = 2 \<and> y = 1 then 10 ^ 18
      else 0)"

definition ledger0 :: ledger where
  "ledger0 token holder =
     (if token = 1 \<and> holder = 21 then 1000
      else if token = 1 \<and> holder = 22 then 10000
      else if token = 2 \<and> holder = 22 then 10000
      else 0)"

definition ctx0 :: blockctx where
  "ctx0 = \<lparr>number = 5, timestamp = 1700000000, gasUsed = 150000\<rparr>"

definition env0 :: "ledger env" where
  "env0 = mock_env rate0 c0 (timestamp ctx0)"

definition store0 :: storage where
  "store0 = \<lparr>owner = 100, paused = False, entered = False, intermediateToken = 2,
     maxPriceDeviation = 500, maxSlippage = 100, minProfitBps = 100,
     maxFlashLoanAmount = 1000, lastExecutionTime = 0,
     totalProfitGenerated = 0, totalGasUsed = 0, successfulTrades = 0,
     failedTrades = 0, lastKnownPrice = (\<lambda>_. 0)\<rparr>"

definition world0 :: "ledger world" where
  "world0 = \<lparr>store = store0, ext = ledger0\<rparr>"

section \<open>The orchestrator script (weth-dai-arbitrage.js) and the price monitor\<close>

text \<open>
  A JavaScript Number is a real number here: the rounding of IEEE doubles is not
  modelled, and where the source can divide by zero the non-finite result is written
  out. A BigInt is an integer. An arithmetic operator applied to a Number and a BigInt
  throws a \<^verbatim>\<open>TypeError\<close>: \<open>None\<close>.
\<close>

datatype jsnum = Number real | BigInt int

fun js_add :: "jsnum \<Rightarrow> jsnum \<Rightarrow> jsnum option" where
  "js_add (Number a) (Number b) = Some (Number (a + b))"
| "js_add (BigInt a) (BigInt b) = Some (BigInt (a + b))"
| "js_add a b = None"

fun js_sub :: "jsnum \<Rightarrow> jsnum \<Rightarrow> jsnum option" where
  "js_sub (Number a) (Number b) = Some (Number (a - b))"
| "js_sub (BigInt a) (BigInt b) = Some (BigInt (a - b))"
| "js_sub a b = None"

fun js_mul :: "jsnum \<Rightarrow> jsnum \<Rightarrow> jsnum option" where
  "js_mul (Number a) (Number b) = Some (Number (a * b))"
| "js_mul (BigInt a) (BigInt b) = Some (BigInt (a * b))"
| "js_mul a b = None"

text \<open>
  Division: BigInt division truncates towards zero and throws on a zero divisor; a
  Number divided by zero is not a real number, and no call of \<open>js_div\<close> below gets
  that far.
\<close>

fun js_div :: "jsnum \<Rightarrow> jsnum \<Rightarrow> jsnum option" where
  "js_div (Number a) (Number b) = (if b = 0 then None else Some (Number (a / b)))"
| "js_div (BigInt a) (BigInt b) =
     (if b = 0 then None else Some (BigInt (sgn a * sgn b * (\<bar>a\<bar> div \<bar>b\<bar>))))"
| "js_div a b = None"

text \<open>\<^verbatim>\<open>Math.abs\<close> converts its argument to a Number, which throws for a BigInt.\<close>

fun js_abs :: "jsnum \<Rightarrow> real option" where
  "js_abs (Number a) = Some \<bar>a\<bar>"
| "js_abs (BigInt a) = None"

definition obind :: "'a option \<Rightarrow> ('a \<Rightarrow> 'b option) \<Rightarrow> 'b option" where
  "obind r f = (case r of None \<Rightarrow> None | Some a \<Rightarrow> f a)"

text \<open>\<^verbatim>\<open>Number(ethers.formatUnits(x, decimals))\<close>\<close>

definition formatUnits :: "int \<Rightarrow> nat \<Rightarrow> real" where
  "formatUnits x decimals = real_of_int x / 10 ^ decimals"

text \<open>
  \<^verbatim>\<open>ethers.parseUnits(amount.toString(), decimals)\<close>: a BigInt when the amount has no
  more than \<open>decimals\<close> decimal places, an exception otherwise.
\<close>

definition parseUnits :: "real \<Rightarrow> nat \<Rightarrow> int option" where
  "parseUnits amount decimals =
     (if real_of_int \<lfloor>amount * 10 ^ decimals\<rfloor> = amount * 10 ^ decimals
      then Some \<lfloor>amount * 10 ^ decimals\<rfloor> else None)"

subsection \<open>The position sizer\<close>

record profitDetails =
  profit :: real
  roi :: real
  optimalSize :: real
  direction :: string

text \<open>
  \<^verbatim>\<open>calculateProfit\<close>. The reserves are BigInts of \<open>decimals\<close> decimal places. The
  first test writes out the non-finite cases of the source: with equal prices, a
  negative quotient under the square root or a zero gas cost, \<^verbatim>\<open>optimalSize\<close>, \<^verbatim>\<open>profit\<close>
  or \<^verbatim>\<open>roi\<close> is \<^verbatim>\<open>NaN\<close> or infinite or the profit is not positive, the final test
  fails and the function returns \<^verbatim>\<open>null\<close>.
\<close>

definition maxTradeSize :: "nat \<Rightarrow> int \<Rightarrow> int \<Rightarrow> real" where
  "maxTradeSize decimals uniReserve0 sushiReserve0 =
     min (formatUnits uniReserve0 decimals) (formatUnits sushiReserve0 decimals) * 0.03"

definition calculateProfit ::
  "real \<Rightarrow> real \<Rightarrow> real \<Rightarrow> nat \<Rightarrow> int \<Rightarrow> int \<Rightarrow> profitDetails option" where
  "calculateProfit uniPrice sushiPrice gasCostUSD decimals uniReserve0 sushiReserve0 =
     (let higherPrice = max uniPrice sushiPrice;
          lowerPrice = min uniPrice sushiPrice;
          profitPerUnit = higherPrice - lowerPrice;
          maxSlippage = 0.003;
          minReserves = min (formatUnits uniReserve0 decimals) (formatUnits sushiReserve0 decimals);
          maxTradeSize = minReserves * 0.03
      in if profitPerUnit * (1 - maxSlippage) = 0 \<or> gasCostUSD = 0
            \<or> gasCostUSD / (profitPerUnit * (1 - maxSlippage)) < 0 then None
         else
         (let optimalSize = min (sqrt (gasCostUSD / (profitPerUnit * (1 - maxSlippage))))
                                maxTradeSize;
              profit = (optimalSize * profitPerUnit * (1 - maxSlippage)) - gasCostUSD;
              roi = (profit / gasCostUSD) * 100
          in if profit > 5 \<and> roi > 10 \<and> roi < 1000
             then Some \<lparr>profit = profit, roi = roi, optimalSize = optimalSize,
                    direction = (if uniPrice > sushiPrice then ''Sushi->Uni'' else ''Uni->Sushi'')\<rparr>
             else None))"

text \<open>
  The net profit the sizer assigns to a size: its own formula for \<^verbatim>\<open>profit\<close>, at any
  size in place of \<^verbatim>\<open>optimalSize\<close>. The reference for the optimality claim.
\<close>

definition netProfit :: "real \<Rightarrow> real \<Rightarrow> real \<Rightarrow> real \<Rightarrow> real" where
  "netProfit uniPrice sushiPrice gasCostUSD x =
     (x * (max uniPrice sushiPrice - min uniPrice sushiPrice) * (1 - 0.003)) - gasCostUSD"

subsection \<open>The detector of the script\<close>

text \<open>
  \<^verbatim>\<open>calculatePriceImpact(amount, reserve0, reserve1, decimals)\<close>, called with the reserves
  converted to Numbers; \<open>None\<close> is an exception.
\<close>

definition calculatePriceImpact_js :: "real \<Rightarrow> real \<Rightarrow> real \<Rightarrow> nat \<Rightarrow> real option" where
  "calculatePriceImpact_js amount reserve0 reserve1 decimals =
     obind (parseUnits amount decimals) (\<lambda>amountBN.
     obind (js_mul (Number reserve0) (Number reserve1)) (\<lambda>constantProduct.
     obind (js_add (Number reserve0) (BigInt amountBN)) (\<lambda>newReserve0.
     obind (js_div constantProduct newReserve0) (\<lambda>newReserve1.
     obind (js_mul newReserve1 (Number reserve0)) (\<lambda>num.
     obind (js_mul (Number reserve1) newReserve0) (\<lambda>den.
     obind (js_div num den) (\<lambda>q.
     obind (js_sub (Number 1) q) (\<lambda>d.
     js_abs d))))))))"

definition maxPriceImpact :: real where
  "maxPriceImpact = 0.005"

text \<open>
  The price difference in percent, \<^verbatim>\<open>priceDiff\<close>, of two prices that the caller has
  found non-zero.
\<close>

definition priceDiff :: "real \<Rightarrow> real \<Rightarrow> real" where
  "priceDiff uniPriceDecimal sushiPriceDecimal =
     \<bar>uniPriceDecimal - sushiPriceDecimal\<bar> / min uniPriceDecimal sushiPriceDecimal * 100"

text \<open>
  \<^verbatim>\<open>Math.abs(Number(now) - Number(prev)) / Number(prev) > reserveChangeThreshold\<close>, for
  reserves that are not negative: with \<open>prev = 0\<close> the quotient is infinite or \<^verbatim>\<open>NaN\<close>.
\<close>

definition suspicious :: "int \<Rightarrow> int \<Rightarrow> bool" where
  "suspicious now prev =
     (if prev = 0 then now \<noteq> 0
      else \<bar>real_of_int now - real_of_int prev\<bar> / real_of_int prev > 0.02)"

datatype detection = NoOpportunity | Logged profitDetails real | Caught

text \<open>
  \<^verbatim>\<open>checkArbitrageOpportunity\<close> from the reserves it has fetched on: the reserves of the
  two venues now, their first reserves one block earlier, the gas cost in USD.
  \<open>Logged\<close> is the call of \<^verbatim>\<open>logArbitrageOpportunity\<close>, with the price difference;
  \<open>Caught\<close> is the \<^verbatim>\<open>catch\<close> clause of the function.
\<close>

definition checkArbitrageOpportunity ::
  "nat \<Rightarrow> real \<Rightarrow> int \<times> int \<Rightarrow> int \<times> int \<Rightarrow> int \<Rightarrow> int \<Rightarrow> detection" where
  "checkArbitrageOpportunity decimals gasCostUSD uniReservesNow sushiReservesNow
       uniPrev0 sushiPrev0 =
     (if suspicious (fst uniReservesNow) uniPrev0 \<or> suspicious (fst sushiReservesNow) sushiPrev0
        then NoOpportunity
      else
      (let uniReserve0 = fst uniReservesNow; uniReserve1 = snd uniReservesNow;
           sushiReserve0 = fst sushiReservesNow; sushiReserve1 = snd sushiReservesNow
       in if uniReserve0 = 0 \<or> uniReserve1 = 0 \<or> sushiReserve0 = 0 \<or> sushiReserve1 = 0
            then NoOpportunity
          else
          (let SCALE = 10 ^ 18;
               uniPrice = (uniReserve1 * SCALE) div uniReserve0;
               sushiPrice = (sushiReserve1 * SCALE) div sushiReserve0;
               uniPriceDecimal = real_of_int uniPrice / 10 ^ 18;
               sushiPriceDecimal = real_of_int sushiPrice / 10 ^ 18
           in if uniPriceDecimal = 0 \<or> sushiPriceDecimal = 0 then NoOpportunity
              else if priceDiff uniPriceDecimal sushiPriceDecimal > 0.1 then
                (case calculateProfit uniPriceDecimal sushiPriceDecimal gasCostUSD decimals
                        uniReserve0 sushiReserve0 of
                   None \<Rightarrow> NoOpportunity
                 | Some details \<Rightarrow>
                     if profit details > 5 then
                       (case calculatePriceImpact_js (optimalSize details)
                               (real_of_int uniReserve0) (real_of_int uniReserve1) decimals of
                          None \<Rightarrow> Caught
                        | Some priceImpact \<Rightarrow>
                            if priceImpact > maxPriceImpact then NoOpportunity
                            else Logged details (priceDiff uniPriceDecimal sushiPriceDecimal))
                     else NoOpportunity)
              else NoOpportunity)))"

subsection \<open>The detector of the price monitor\<close>

text \<open>
  \<^verbatim>\<open>PriceMonitor.findArbitrageOpportunities\<close>. The map \<^verbatim>\<open>this.prices\<close> is the list of its
  entries in insertion order: the key \<^verbatim>\<open>exchange-pair\<close>, then bid and ask. The profit
  in percent divides by the ask of the buying exchange, so it is kept as a Number that
  can be infinite or \<^verbatim>\<open>NaN\<close>.
\<close>

datatype number = Fin real | PosInfinity | NegInfinity | NaN


fun exceeds :: "number \<Rightarrow> real \<Rightarrow> bool" where
  "exceeds (Fin x) m = (x > m)"
| "exceeds PosInfinity m = True"
| "exceeds NegInfinity m = False"
| "exceeds NaN m = False"









subsection \<open>The emergency stop and the execution of a trade\<close>

record executionStats =
  es_totalTrades :: nat
  es_successfulTrades :: nat
  es_failedTrades :: nat
  es_totalProfit :: real
  es_totalGasSpent :: real
  es_recentErrors :: nat

text \<open>
  The globals of the script: \<^verbatim>\<open>emergencyStopActive\<close>, \<^verbatim>\<open>totalLoss\<close>, \<^verbatim>\<open>totalGasUsed\<close>
  (\<open>totalGasUsed_js\<close>) and \<^verbatim>\<open>executionStats\<close> (its counters; of \<^verbatim>\<open>recentErrors\<close> the
  length). \<^verbatim>\<open>lastEmergencyCheck\<close> is never read.
\<close>

record bot =
  emergencyStopActive :: bool
  totalLoss :: real
  totalGasUsed_js :: real
  executionStats :: executionStats

text \<open>The fields of an opportunity that \<^verbatim>\<open>executeArbitrage\<close> computes with.\<close>

record arb =
  arb_optimalSize :: real
  arb_liquidityUSD :: real
  arb_gasPrice :: jsnum
  arb_profit :: real

definition emergencyStop_maxLoss :: real where
  "emergencyStop_maxLoss = 100"

definition emergencyStop_maxGasSpent :: real where
  "emergencyStop_maxGasSpent = 1"

definition emergencyStop_cooldownPeriod :: real where
  "emergencyStop_cooldownPeriod = 300"

definition maxPositionSize :: "string \<Rightarrow> real" where
  "maxPositionSize name = (if name = ''WETH/DAI'' \<or> name = ''WETH/USDC'' then 50 else 20)"

definition minLiquidity :: "string \<Rightarrow> real" where
  "minLiquidity name =
     (if name = ''WETH/DAI'' \<or> name = ''WETH/USDC'' then 1000000 else 500000)"

definition estimatedGasUsed :: "string \<Rightarrow> int" where
  "estimatedGasUsed name =
     (if name = ''WETH/DAI'' \<or> name = ''WETH/USDC'' then 180000
      else if name = ''USDC/USDT'' \<or> name = ''DAI/USDC'' \<or> name = ''DAI/USDT'' then 190000
      else if name = ''WBTC/WETH'' then 200000
      else 250000)"

definition checkEmergencyStop :: "bot \<Rightarrow> bool \<times> bot" where
  "checkEmergencyStop b =
     (if emergencyStopActive b then (True, b)
      else if totalLoss b > emergencyStop_maxLoss \<or> totalGasUsed_js b > emergencyStop_maxGasSpent
        then (True, b\<lparr>emergencyStopActive := True\<rparr>)
      else (False, b))"

text \<open>
  \<^verbatim>\<open>updateExecutionStats(trade)\<close> for a trade with the given \<^verbatim>\<open>success\<close>, \<^verbatim>\<open>profit\<close> and
  \<^verbatim>\<open>gasSpent\<close>; the first component is false when it throws (the statistics keep what
  was written before). The statement on \<^verbatim>\<open>profitByPair\<close> follows the addition to
  \<^verbatim>\<open>totalGasSpent\<close> and changes no field kept here.
\<close>

definition updateExecutionStats ::
  "executionStats \<Rightarrow> bool \<Rightarrow> real \<Rightarrow> jsnum \<Rightarrow> bool \<times> executionStats" where
  "updateExecutionStats st success p gasSpent =
     (let st1 = st\<lparr>es_totalTrades := es_totalTrades st + 1\<rparr> in
      if success then
        (let st2 = st1\<lparr>es_successfulTrades := es_successfulTrades st1 + 1,
                       es_totalProfit := es_totalProfit st1 + p\<rparr>
         in case js_add (Number (es_totalGasSpent st2)) gasSpent of
              Some (Number g) \<Rightarrow> (True, st2\<lparr>es_totalGasSpent := g\<rparr>)
            | Some (BigInt g) \<Rightarrow> (False, st2)
            | None \<Rightarrow> (False, st2))
      else (True, st1\<lparr>es_failedTrades := es_failedTrades st1 + 1,
                       es_recentErrors := min 10 (es_recentErrors st1 + 1)\<rparr>))"

text \<open>\<^verbatim>\<open>Number(ethers.formatEther(x))\<close> of a BigInt.\<close>

fun formatEther :: "jsnum \<Rightarrow> real option" where
  "formatEther (BigInt x) = Some (real_of_int x / 10 ^ 18)"
| "formatEther (Number x) = None"

text \<open>
  What the calls to the network did: one of them threw; the simulation reverted; the
  bundle was submitted, and \<^verbatim>\<open>bundleInclusion === 0\<close> or not.
\<close>

datatype network = NetworkError | SimulationReverted | Submitted bool

datatype jsresult = Undefined | Returned bool

definition executeArbitrage_js :: "bot \<Rightarrow> string \<Rightarrow> arb \<Rightarrow> network \<Rightarrow> jsresult \<times> bot" where
  "executeArbitrage_js b name opp net =
     (case checkEmergencyStop b of (stop, b1) \<Rightarrow>
      if stop then (Undefined, b1)
      else if arb_optimalSize opp > maxPositionSize name then (Undefined, b1)
      else if arb_liquidityUSD opp < minLiquidity name then (Undefined, b1)
      else
      (case net of
         NetworkError \<Rightarrow> (Returned False, b1)
       | SimulationReverted \<Rightarrow> (Undefined, b1)
       | Submitted included \<Rightarrow>
          (case js_mul (arb_gasPrice opp) (BigInt (estimatedGasUsed name)) of
             None \<Rightarrow> (Returned False, b1)
           | Some gasSpent \<Rightarrow>
              (case updateExecutionStats (executionStats b1) included (arb_profit opp) gasSpent of
                 (False, st) \<Rightarrow> (Returned False, b1\<lparr>executionStats := st\<rparr>)
               | (True, st) \<Rightarrow>
                  (let b2 = b1\<lparr>executionStats := st\<rparr> in
                   if \<not> included then
                     (case obind (js_mul gasSpent (Number 2200))
                             (\<lambda>x. js_add (Number (totalLoss b2)) x) of
                        Some (Number l) \<Rightarrow>
                          (let b3 = b2\<lparr>totalLoss := l\<rparr> in
                           case formatEther gasSpent of
                             Some g \<Rightarrow> (Returned included,
                                        b3\<lparr>totalGasUsed_js := totalGasUsed_js b3 + g\<rparr>)
                           | None \<Rightarrow> (Returned False, b3))
                      | Some (BigInt l) \<Rightarrow> (Returned False, b2)
                      | None \<Rightarrow> (Returned False, b2))
                   else (Returned included, b2))))))"

text \<open>A run of the orchestrator: trade attempts one after the other, from the start.\<close>

type_synonym attempt = "string \<times> arb \<times> network"

fun attempts :: "bot \<Rightarrow> attempt list \<Rightarrow> bot" where
  "attempts b [] = b"
| "attempts b ((name, opp, net) # rest) = attempts (snd (executeArbitrage_js b name opp net)) rest"

definition bot0 :: bot where
  "bot0 = \<lparr>emergencyStopActive = False, totalLoss = 0, totalGasUsed_js = 0,
     executionStats = \<lparr>es_totalTrades = 0, es_successfulTrades = 0, es_failedTrades = 0,
       es_totalProfit = 0, es_totalGasSpent = 0, es_recentErrors = 0\<rparr>\<rparr>"

section \<open>Relations between the storage before and after\<close>

text \<open>
  A body keeps a relation on storages when every run of it that returns relates the
  storage it started from to the one it leaves; a body fails when it never returns.
\<close>

definition keeps :: "(storage \<Rightarrow> storage \<Rightarrow> bool) \<Rightarrow> ('e, 'a) exec \<Rightarrow> bool" where
  "keeps R m \<longleftrightarrow> (\<forall>w a w'. m w = (Inr a, w') \<longrightarrow> R (store w) (store w'))"

definition fails :: "('e, 'a) exec \<Rightarrow> bool" where
  "fails m \<longleftrightarrow> (\<forall>w a w'. m w \<noteq> (Inr a, w'))"

text \<open>
  What no function of the contract undoes: the count of failed trades stays, the gas
  total does not fall, the pause flag stays.
\<close>

definition steady :: "storage \<Rightarrow> storage \<Rightarrow> bool" where
  "steady s s' \<longleftrightarrow>
     failedTrades s' = failedTrades s \<and> totalGasUsed s \<le> totalGasUsed s'
     \<and> paused s' = paused s"

text \<open>
  The transactions that run a settlement: the entry point and the two callbacks, which
  are external functions. No other function writes the profit total.
\<close>

fun settles :: "txn \<Rightarrow> bool" where
  "settles (InitiateFlashLoan asset amount) = True"
| "settles (ExecuteOperation asset amount premium initiator) = True"
| "settles (ExecuteArbitrage asset amount amountOwed) = True"
| "settles t = False"

definition same_profit :: "storage \<Rightarrow> storage \<Rightarrow> bool" where
  "same_profit s s' \<longleftrightarrow> totalProfitGenerated s' = totalProfitGenerated s"

section \<open>Example deployments\<close>

text \<open>
  The contract holding a borrowed amount of the asset, before the callback runs.
\<close>

definition funded :: "nat \<Rightarrow> ledger" where
  "funded n = ledger0(1 := (ledger0 1)(10 := n))"

text \<open>
  A venue that quotes 110 units for the first leg and pays out 104, whatever minimum it
  is asked for; \<^verbatim>\<open>maxSlippage\<close> is 500.
\<close>

definition env_slip :: "ledger env" where
  "env_slip = env0\<lparr>getAmountsOut := (\<lambda>l a p. Inr [a, 110]),
     swapExactTokensForTokens := (\<lambda>caller a m p to d l.
        sbind (move (hd p) caller 22 a l) (\<lambda>(u, l1).
        sbind (move (last p) 22 to 104 l1) (\<lambda>(u, l2).
        Inr ([a, 104], l2))))\<rparr>"

definition world_slip :: "ledger world" where
  "world_slip = \<lparr>store = store0\<lparr>maxSlippage := 500\<rparr>, ext = funded 100\<rparr>"

text \<open>
  A venue that quotes the second leg at the rate set and pays out 90 units of the asset,
  whatever minimum it is asked for; the first leg is as in the example deployment.
\<close>

definition env_short :: "ledger env" where
  "env_short = env0\<lparr>swapExactTokensForTokens := (\<lambda>caller a m p to d l.
     if hd p = 2 then
       sbind (move (hd p) caller 22 a l) (\<lambda>(u, l1).
       sbind (move (last p) 22 to 90 l1) (\<lambda>(u, l2).
       Inr ([a, 90], l2)))
     else swapExactTokensForTokens env0 caller a m p to d l)\<rparr>"

text \<open>
  A round trip that returns 1.05 percent more than it takes, with \<^verbatim>\<open>minProfitBps\<close> at
  200.
\<close>

definition rate1 :: "address \<Rightarrow> address \<Rightarrow> nat" where
  "rate1 x y =
     (if x = 1 \<and> y = 3 then 10 ^ 18
      else if x = 1 \<and> y = 2 then 10 ^ 18
      else if x = 2 \<and> y = 1 then 10105 * 10 ^ 14
      else 0)"

definition env1 :: "ledger env" where
  "env1 = mock_env rate1 c0 (timestamp ctx0)"

definition world1 :: "ledger world" where
  "world1 = \<lparr>store = store0\<lparr>minProfitBps := 200\<rparr>, ext = funded 10000\<rparr>"

text \<open>
  The price of the asset in WETH doubles: the last known price is \<open>10 ^ 18\<close>, the venue
  now quotes \<open>2 \<times> 10 ^ 18\<close> (the price change of the repository's test
  ``Should detect and revert on excessive price deviation''); the limit is 500.
\<close>

definition rate_up :: "address \<Rightarrow> address \<Rightarrow> nat" where
  "rate_up x y = (if x = 1 \<and> y = 3 then 2 * 10 ^ 18 else rate0 x y)"

definition env_up :: "ledger env" where
  "env_up = mock_env rate_up c0 (timestamp ctx0)"

definition world_up :: "ledger world" where
  "world_up = \<lparr>store = store0\<lparr>lastKnownPrice := (\<lambda>_. 0)(1 := 10 ^ 18)\<rparr>, ext = ledger0\<rparr>"

text \<open>The price halves instead.\<close>

definition rate_down :: "address \<Rightarrow> address \<Rightarrow> nat" where
  "rate_down x y = (if x = 1 \<and> y = 3 then 5 * 10 ^ 17 else rate0 x y)"

definition env_down :: "ledger env" where
  "env_down = mock_env rate_down c0 (timestamp ctx0)"

text \<open>
  A trade attempt of the orchestrator: size 10, liquidity of two million, a gas price of
  30 gwei as a BigInt, an expected profit of 50.
\<close>

definition opp0 :: arb where
  "opp0 = \<lparr>arb_optimalSize = 10, arb_liquidityUSD = 2000000,
     arb_gasPrice = BigInt 30000000000, arb_profit = 50\<rparr>"

text \<open>
  The same attempt at a gas price of 300 gwei: its bundle is not included (a failed
  trade), or its simulation reverts.
\<close>

definition opp_costly :: arb where
  "opp_costly = opp0\<lparr>arb_gasPrice := BigInt 300000000000\<rparr>"

definition failed_attempt :: attempt where
  "failed_attempt = (''WETH/DAI'', opp_costly, Submitted False)"

definition reverted_attempt :: attempt where
  "reverted_attempt = (''WETH/DAI'', opp_costly, SimulationReverted)"

text \<open>
  A deployment with a borrowing limit of \<open>2 ^ 195\<close> and the mock venue with the price of
  the intermediate token set to two units of the asset, so that a settlement of
  \<open>2 ^ 195\<close> units earns \<open>2 ^ 195\<close>. \<open>store_big n\<close> is the storage after \<open>n\<close> such
  settlements, two blocks apart.
\<close>

definition rate_big :: "address \<Rightarrow> address \<Rightarrow> nat" where
  "rate_big x y =
     (if x = 1 \<and> y = 3 then 10 ^ 18
      else if x = 1 \<and> y = 2 then 10 ^ 18
      else if x = 2 \<and> y = 1 then 2 * 10 ^ 18
      else 0)"

definition env_big :: "ledger env" where
  "env_big = mock_env rate_big c0 (timestamp ctx0)"

definition ledger_big :: ledger where
  "ledger_big token holder =
     (if token = 1 \<and> holder = 21 then 2 ^ 195
      else if token = 1 \<and> holder = 22 then 2 ^ 196
      else if token = 2 \<and> holder = 22 then 2 ^ 195
      else 0)"

definition store_big :: "nat \<Rightarrow> storage" where
  "store_big n = \<lparr>owner = 100, paused = False, entered = False, intermediateToken = 2,
     maxPriceDeviation = 500, maxSlippage = 100, minProfitBps = 100,
     maxFlashLoanAmount = 2 ^ 195, lastExecutionTime = 2 * n,
     totalProfitGenerated = n * 2 ^ 195, totalGasUsed = n * 150000, successfulTrades = n,
     failedTrades = 0, lastKnownPrice = (if n = 0 then (\<lambda>_. 0) else (\<lambda>_. 0)(1 := 10 ^ 18))\<rparr>"

definition ctx_big :: "nat \<Rightarrow> blockctx" where
  "ctx_big n = \<lparr>number = 2 * n + 2, timestamp = 1700000000, gasUsed = 150000\<rparr>"

section \<open>Verification\<close>

subsection \<open>Running a body step by step\<close>

lemma thn_ret: "thn (ret a) f w = f a w"
  by (simp add: thn_def ret_def)

lemma thn_throw: "thn (throw e) f w = (Inl e, w)"
  by (simp add: thn_def throw_def)

lemma thn_lift_Inr: "thn (lift (Inr a)) f w = f a w"
  by (simp add: thn_def lift_def)

lemma thn_lift_Inl: "thn (lift (Inl e)) f w = (Inl e, w)"
  by (simp add: thn_def lift_def)

lemma thn_lift: "thn (lift r) f w = (case r of Inl e \<Rightarrow> (Inl e, w) | Inr a \<Rightarrow> f a w)"
  by (simp add: thn_def lift_def split: sum.splits)

lemma thn_gets: "thn (gets g) f w = f (g (store w)) w"
  by (simp add: thn_def gets_def)

lemma thn_modify: "thn (modify g) f w = f () (w\<lparr>store := g (store w)\<rparr>)"
  by (simp add: thn_def modify_def)

lemma thn_view:
  "thn (view g) f w = (case g (ext w) of Inl e \<Rightarrow> (Inl e, w) | Inr a \<Rightarrow> f a w)"
  by (simp add: thn_def view_def split: sum.splits)

lemma thn_extcall:
  "thn (extcall g) f w =
     (case g (ext w) of Inl e \<Rightarrow> (Inl e, w) | Inr (a, e') \<Rightarrow> f a (w\<lparr>ext := e'\<rparr>))"
  by (simp add: thn_def extcall_def split: sum.splits prod.splits)

lemma thn_assoc: "thn (thn m g) f = thn m (\<lambda>a. thn (g a) f)"
  by (rule ext) (simp add: thn_def split: sum.splits prod.splits)

lemma thn_if: "thn (if b then m1 else m2) f w = (if b then thn m1 f w else thn m2 f w)"
  by simp

lemma if_app: "(if b then m1 else m2) (w::'e world) = (if b then m1 w else m2 w)"
  by simp

lemma thn_call:
  "thn (call m) f w = (case m w of (Inl e, w1) \<Rightarrow> (Inl e, w) | (Inr a, w1) \<Rightarrow> f a w1)"
  by (simp add: thn_def call_def split: sum.splits prod.splits)

lemma thn_try:
  "thn (try_catch m h) f w =
     (case m w of (Inl e, w1) \<Rightarrow> thn (h e) f w | (Inr a, w1) \<Rightarrow> f a w1)"
  by (simp add: thn_def try_catch_def call_def split: sum.splits prod.splits)

lemma ret_app: "ret a w = (Inr a, w)"
  by (simp add: ret_def)

lemma throw_app: "throw e w = (Inl e, w)"
  by (simp add: throw_def)

lemma lift_app: "lift r w = (r, w)"
  by (simp add: lift_def)

lemma extcall_app:
  "extcall g w = (case g (ext w) of Inl e \<Rightarrow> (Inl e, w) | Inr (a, e') \<Rightarrow> (Inr a, w\<lparr>ext := e'\<rparr>))"
  by (simp add: extcall_def)

lemma modify_app: "modify g w = (Inr (), w\<lparr>store := g (store w)\<rparr>)"
  by (simp add: modify_def)

lemmas exec_simps = thn_ret thn_throw thn_lift_Inr thn_lift_Inl thn_gets thn_modify thn_view
  thn_extcall thn_assoc thn_if if_app thn_call thn_try ret_app throw_app lift_app extcall_app
  modify_app

lemma thn_Inr_iff:
  "thn m f w = (Inr b, w') \<longleftrightarrow> (\<exists>a w1. m w = (Inr a, w1) \<and> f a w1 = (Inr b, w'))"
  by (auto simp: thn_def split: sum.splits prod.splits)

lemmas arith_defs = sbind_def checked_add_def checked_sub_def checked_mul_def checked_div_def
  index_def MAX_UINT256_def MAX_BPS_def MIN_EXECUTION_DELAY_def

lemmas fun_defs = executeFirstTrade_def executeSecondTrade_def executeArbitrage_def
  calculateMinAmountOut_def calculateSlippage_def getCurrentPrice_def calculatePriceImpact_def
  checkPriceDeviation_def calculateEstimatedProfit_def setupFlashLoan_def executeOperation_def
  flashLoanSimple_def nonReentrant_def whenNotPaused_def onlyOwner_def POOL_def
  ADDRESSES_PROVIDER_def initiateFlashLoan_body_def initiateFlashLoan_def

lemmas bench_defs = mock_env_def mock_getAmountsOut_def mock_swapExactTokensForTokens_def
  mock_lend_def mock_collect_def move_def c0_def rate0_def ledger0_def ctx0_def env0_def
  store0_def world0_def funded_def

subsection \<open>The trade legs\<close>

lemma executeFirstTrade_store:
  "executeFirstTrade env c ctx asset amount w = (r, w') \<Longrightarrow> store w' = store w"
  by (auto simp: executeFirstTrade_def exec_simps thn_lift split: sum.splits prod.splits if_splits)

lemma executeSecondTrade_store:
  "executeSecondTrade env c ctx asset amount mr w = (r, w') \<Longrightarrow> store w' = store w"
  by (auto simp: executeSecondTrade_def exec_simps thn_lift split: sum.splits prod.splits if_splits)

lemma calculateMinAmountOut_eq:
  "calculateMinAmountOut st q = Inr m \<Longrightarrow>
     q * maxSlippage st \<le> MAX_UINT256 \<and> (q * maxSlippage st) div 10000 \<le> q \<and>
     m = q - (q * maxSlippage st) div 10000"
  by (auto simp: calculateMinAmountOut_def arith_defs split: if_splits)

text \<open>
  The minimum the contract asks for is never below \<open>(1 - s/10000) \<times> q\<close>: the division
  rounds the tolerance down.
\<close>

lemma min_out_real:
  assumes "calculateMinAmountOut st q = Inr m"
  shows "(1 - real (maxSlippage st) / 10000) * real q \<le> real m"
proof -
  from calculateMinAmountOut_eq[OF assms]
  have le: "(q * maxSlippage st) div 10000 \<le> q" and m: "m = q - (q * maxSlippage st) div 10000"
    by auto
  have "real ((q * maxSlippage st) div 10000) \<le> real (q * maxSlippage st) / 10000"
    using of_nat_div_le_of_nat[of "q * maxSlippage st" 10000, where 'a=real] by simp
  moreover have "real m = real q - real ((q * maxSlippage st) div 10000)"
    using le m by simp
  ultimately show ?thesis by (simp add: algebra_simps)
qed

text \<open>
  C5. In the first leg the contract quotes \<open>q\<close>, asks the venue for at least
  \<open>q - q \<times> maxSlippage / 10000\<close> and accepts what it receives only if it is no less:
  a leg that returns has received at least \<open>(1 - s/10000) \<times> q\<close>, and when the venue's
  swap returns less than that, the leg reverts with \<open>ExcessiveSlippage\<close>; as a message
  call it leaves the world, and so every balance, as it was.
\<close>

theorem C5_first_leg_slippage:
  fixes env :: "'e env"
  shows "(\<forall>r w'. executeFirstTrade env c ctx asset amount w = (Inr r, w') \<longrightarrow>
      (\<exists>amountsOut q.
         getAmountsOut env (ext w) amount [asset, intermediateToken (store w)] = Inr amountsOut
         \<and> index amountsOut 1 = Inr q
         \<and> (1 - real (maxSlippage (store w)) / 10000) * real q \<le> real r))
   \<and> (\<forall>amountsOut q minOut deadline received e' r.
        getAmountsOut env (ext w) amount [asset, intermediateToken (store w)] = Inr amountsOut
      \<and> index amountsOut 1 = Inr q
      \<and> calculateMinAmountOut (store w) q = Inr minOut
      \<and> checked_add (timestamp ctx) 300 = Inr deadline
      \<and> swapExactTokensForTokens env (this c) amount minOut
            [asset, intermediateToken (store w)] (this c) deadline (ext w) = Inr (received, e')
      \<and> index received 1 = Inr r
      \<and> real r < (1 - real (maxSlippage (store w)) / 10000) * real q
      \<longrightarrow> executeFirstTrade env c ctx asset amount w
             = (Inl (ExcessiveSlippage minOut r), w\<lparr>ext := e'\<rparr>)
        \<and> call (executeFirstTrade env c ctx asset amount) w
             = (Inl (ExcessiveSlippage minOut r), w))"
proof (intro conjI allI impI)
  fix r w'
  assume a: "executeFirstTrade env c ctx asset amount w = (Inr r, w')"
  then obtain amountsOut q minOut where
    1: "getAmountsOut env (ext w) amount [asset, intermediateToken (store w)] = Inr amountsOut"
    and 2: "index amountsOut 1 = Inr q" and 3: "calculateMinAmountOut (store w) q = Inr minOut"
    and 4: "minOut \<le> r"
    by (auto simp: executeFirstTrade_def exec_simps thn_lift
          split: sum.splits prod.splits if_splits)
  from min_out_real[OF 3] 4 have "(1 - real (maxSlippage (store w)) / 10000) * real q \<le> real r"
    by linarith
  with 1 2 show "\<exists>amountsOut q.
         getAmountsOut env (ext w) amount [asset, intermediateToken (store w)] = Inr amountsOut
         \<and> index amountsOut 1 = Inr q
         \<and> (1 - real (maxSlippage (store w)) / 10000) * real q \<le> real r" by blast
next
  fix amountsOut q minOut deadline received e' r
  assume h: "getAmountsOut env (ext w) amount [asset, intermediateToken (store w)] = Inr amountsOut
      \<and> index amountsOut 1 = Inr q
      \<and> calculateMinAmountOut (store w) q = Inr minOut
      \<and> checked_add (timestamp ctx) 300 = Inr deadline
      \<and> swapExactTokensForTokens env (this c) amount minOut
            [asset, intermediateToken (store w)] (this c) deadline (ext w) = Inr (received, e')
      \<and> index received 1 = Inr r
      \<and> real r < (1 - real (maxSlippage (store w)) / 10000) * real q"
  then have "r < minOut" using min_out_real[of "store w" q minOut] by linarith
  with h show "executeFirstTrade env c ctx asset amount w
      = (Inl (ExcessiveSlippage minOut r), w\<lparr>ext := e'\<rparr>)"
    by (simp add: executeFirstTrade_def exec_simps)
  then show "call (executeFirstTrade env c ctx asset amount) w
      = (Inl (ExcessiveSlippage minOut r), w)"
    by (simp add: call_def)
qed

text \<open>
  The scenario of the specification: quoted 110, returned 104, \<^verbatim>\<open>maxSlippage\<close> 500. The
  minimum is 105 and the leg reverts with \<open>ExcessiveSlippage(105, 104)\<close>.
\<close>

theorem C5_first_leg_slippage_witness:
  "call (executeFirstTrade env_slip c0 ctx0 1 100) world_slip
     = (Inl (ExcessiveSlippage 105 104), world_slip)
   \<and> real 104 < (1 - real 500 / 10000) * real 110"
proof -
  have 1: "getAmountsOut env_slip (ext world_slip) 100 [1, intermediateToken (store world_slip)]
            = Inr [100, 110]"
    by (simp add: env_slip_def)
  have 2: "index [100, 110] 1 = Inr 110" by (simp add: index_def)
  have 3: "calculateMinAmountOut (store world_slip) 110 = Inr 105"
    by (simp add: world_slip_def store0_def calculateMinAmountOut_def arith_defs)
  have 4: "checked_add (timestamp ctx0) 300 = Inr 1700000300"
    by (simp add: ctx0_def arith_defs)
  obtain e' where 5: "swapExactTokensForTokens env_slip (this c0) 100 105
      [1, intermediateToken (store world_slip)] (this c0) 1700000300 (ext world_slip)
      = Inr ([100, 104], e')"
    by (simp add: env_slip_def world_slip_def store0_def c0_def funded_def ledger0_def
          move_def sbind_def)
  have 6: "index [100, 104] 1 = Inr 104" by (simp add: index_def)
  have 7: "real 104 < (1 - real (maxSlippage (store world_slip)) / 10000) * real 110"
    by (simp add: world_slip_def store0_def)
  from C5_first_leg_slippage[THEN conjunct2, rule_format, of env_slip world_slip 100 1
          "[100, 110]" 110 105 ctx0 1700000300 c0 "[100, 104]" e' 104] 1 2 3 4 5 6 7
  have "call (executeFirstTrade env_slip c0 ctx0 1 100) world_slip
     = (Inl (ExcessiveSlippage 105 104), world_slip)" by blast
  then show ?thesis by simp
qed

subsection \<open>The profit check\<close>

text \<open>
  A settlement that returns has run both legs, its final amount covers the debt, and
  the profit check has passed; the profit is added to the running total.
\<close>

lemma executeArbitrage_success:
  assumes "executeArbitrage env c ctx sender asset amount amountOwed w = (Inr ok, w')"
  shows "\<exists>ia w1 fa w2.
     executeFirstTrade env c ctx asset amount w = (Inr ia, w1) \<and>
     executeSecondTrade env c ctx asset ia amountOwed w1 = (Inr fa, w2) \<and>
     amountOwed \<le> fa \<and>
     amountOwed * minProfitBps (store w) \<le> (fa - amountOwed) * 10000 \<and> ok \<and>
     w' = w2\<lparr>store := (store w2)\<lparr>totalProfitGenerated :=
             (totalProfitGenerated (store w2) + (fa - amountOwed)) mod 2 ^ 256\<rparr>\<rparr>"
proof -
  from assms have s: "sender = this c"
    by (auto simp: executeArbitrage_def exec_simps split: if_splits)
  from assms s obtain ia w1 where 1: "executeFirstTrade env c ctx asset amount w = (Inr ia, w1)"
    and r1: "thn (executeSecondTrade env c ctx asset ia amountOwed) (\<lambda>finalAmount.
      thn (lift (checked_sub finalAmount amountOwed)) (\<lambda>profit.
      thn (lift (checked_mul profit MAX_BPS)) (\<lambda>lhs.
      thn (gets minProfitBps) (\<lambda>bps.
      thn (lift (checked_mul amountOwed bps)) (\<lambda>rhs.
      if lhs < rhs then throw (InsufficientProfit profit (rhs div MAX_BPS))
      else
      thn (modify (\<lambda>s. s\<lparr>totalProfitGenerated :=
             (totalProfitGenerated s + profit) mod 2 ^ 256\<rparr>)) (\<lambda>_.
      ret True)))))) w1 = (Inr ok, w')"
    by (auto simp: executeArbitrage_def thn_Inr_iff)
  from r1 obtain fa w2 where 2: "executeSecondTrade env c ctx asset ia amountOwed w1 = (Inr fa, w2)"
    and r2: "thn (lift (checked_sub fa amountOwed)) (\<lambda>profit.
      thn (lift (checked_mul profit MAX_BPS)) (\<lambda>lhs.
      thn (gets minProfitBps) (\<lambda>bps.
      thn (lift (checked_mul amountOwed bps)) (\<lambda>rhs.
      if lhs < rhs then throw (InsufficientProfit profit (rhs div MAX_BPS))
      else
      thn (modify (\<lambda>s. s\<lparr>totalProfitGenerated :=
             (totalProfitGenerated s + profit) mod 2 ^ 256\<rparr>)) (\<lambda>_.
      ret True))))) w2 = (Inr ok, w')"
    by (auto simp: thn_Inr_iff)
  have st: "store w2 = store w"
    using executeFirstTrade_store[OF 1] executeSecondTrade_store[OF 2] by simp
  from r2 st have "amountOwed \<le> fa \<and>
     amountOwed * minProfitBps (store w) \<le> (fa - amountOwed) * 10000 \<and> ok \<and>
     w' = w2\<lparr>store := (store w2)\<lparr>totalProfitGenerated :=
             (totalProfitGenerated (store w2) + (fa - amountOwed)) mod 2 ^ 256\<rparr>\<rparr>"
    by (auto simp: exec_simps thn_lift arith_defs split: sum.splits if_splits)
  with 1 2 show ?thesis by blast
qed

text \<open>
  Whatever the numbers: when both legs have returned and the final amount is below the
  floor, the settlement reverts; with \<open>InsufficientProfit\<close> when the check itself can
  be computed, with the panic of checked arithmetic when its subtraction or its right
  product leaves the range of \<^verbatim>\<open>uint256\<close>.
\<close>

lemma executeArbitrage_low_profit:
  assumes s: "sender = this c"
    and 1: "executeFirstTrade env c ctx asset amount w = (Inr ia, w1)"
    and 2: "executeSecondTrade env c ctx asset ia amountOwed w1 = (Inr fa, w2)"
    and low: "(int fa - int amountOwed) * 10000 < int (amountOwed * minProfitBps (store w))"
  shows "\<exists>e. executeArbitrage env c ctx sender asset amount amountOwed w = (Inl e, w2)
           \<and> (e = InsufficientProfit (fa - amountOwed) (amountOwed * minProfitBps (store w) div MAX_BPS)
                \<or> e = Panic 17)
           \<and> (amountOwed \<le> fa \<and> amountOwed * minProfitBps (store w) \<le> MAX_UINT256
                \<longrightarrow> e = InsufficientProfit (fa - amountOwed) (amountOwed * minProfitBps (store w) div MAX_BPS))"
proof -
  have st: "store w2 = store w"
    using executeFirstTrade_store[OF 1] executeSecondTrade_store[OF 2] by simp
  have run: "executeArbitrage env c ctx sender asset amount amountOwed w =
      thn (lift (checked_sub fa amountOwed)) (\<lambda>profit.
      thn (lift (checked_mul profit MAX_BPS)) (\<lambda>lhs.
      thn (gets minProfitBps) (\<lambda>bps.
      thn (lift (checked_mul amountOwed bps)) (\<lambda>rhs.
      if lhs < rhs then throw (InsufficientProfit profit (rhs div MAX_BPS))
      else
      thn (modify (\<lambda>s. s\<lparr>totalProfitGenerated :=
             (totalProfitGenerated s + profit) mod 2 ^ 256\<rparr>)) (\<lambda>_.
      ret True))))) w2"
    using s 1 2 by (simp add: executeArbitrage_def thn_def)
  show ?thesis
  proof (cases "amountOwed \<le> fa")
    case False
    then show ?thesis unfolding run
      by (simp add: exec_simps checked_sub_def)
  next
    case True
    with low have lt: "(fa - amountOwed) * 10000 < amountOwed * minProfitBps (store w)"
      by (metis (no_types, lifting) of_nat_diff of_nat_less_iff of_nat_mult of_nat_numeral)
    show ?thesis
    proof (cases "amountOwed * minProfitBps (store w) \<le> MAX_UINT256")
      case b: True
      with lt have "(fa - amountOwed) * 10000 \<le> MAX_UINT256" by linarith
      with b lt True st show ?thesis unfolding run
        by (simp add: exec_simps checked_sub_def checked_mul_def MAX_BPS_def)
    next
      case b: False
      show ?thesis
      proof (cases "(fa - amountOwed) * 10000 \<le> MAX_UINT256")
        case True
        with b \<open>amountOwed \<le> fa\<close> st show ?thesis unfolding run
          by (simp add: exec_simps checked_sub_def checked_mul_def MAX_BPS_def)
      next
        case False
        with b \<open>amountOwed \<le> fa\<close> st show ?thesis unfolding run
          by (simp add: exec_simps checked_sub_def checked_mul_def MAX_BPS_def)
      qed
    qed
  qed
qed

text \<open>
  C1, as the code has it. Every call of \<^verbatim>\<open>_executeArbitrage\<close> that returns has a final
  amount \<open>fa\<close> with \<open>amountOwed \<le> fa\<close> and, for the profit \<open>fa - amountOwed\<close>,
  \<open>profit \<times> 10000 \<ge> amountOwed \<times> minProfitBps\<close>. Every call by the contract itself
  whose legs return with a final amount below that floor reverts: with
  \<open>InsufficientProfit(profit, amountOwed \<times> minProfitBps / 10000)\<close> when the final amount
  covers the debt and \<open>amountOwed \<times> minProfitBps\<close> is a \<^verbatim>\<open>uint256\<close>, and with
  \<^verbatim>\<open>Panic(0x11)\<close> otherwise: the subtraction \<^verbatim>\<open>finalAmount - amountOwed\<close> and the two
  products of the check are checked arithmetic.
\<close>

theorem C1_profit_floor:
  fixes env :: "'e env"
  shows "(\<forall>ok w'. executeArbitrage env c ctx sender asset amount amountOwed w = (Inr ok, w') \<longrightarrow>
      (\<exists>ia w1 fa w2.
         executeFirstTrade env c ctx asset amount w = (Inr ia, w1) \<and>
         executeSecondTrade env c ctx asset ia amountOwed w1 = (Inr fa, w2) \<and>
         amountOwed \<le> fa \<and>
         (fa - amountOwed) * 10000 \<ge> amountOwed * minProfitBps (store w)))
   \<and> (\<forall>ia w1 fa w2.
        sender = this c
      \<and> executeFirstTrade env c ctx asset amount w = (Inr ia, w1)
      \<and> executeSecondTrade env c ctx asset ia amountOwed w1 = (Inr fa, w2)
      \<and> (int fa - int amountOwed) * 10000 < int (amountOwed * minProfitBps (store w))
      \<longrightarrow> executeArbitrage env c ctx sender asset amount amountOwed w
            = (Inl (if amountOwed \<le> fa \<and> amountOwed * minProfitBps (store w) \<le> MAX_UINT256
                    then InsufficientProfit (fa - amountOwed)
                           (amountOwed * minProfitBps (store w) div MAX_BPS)
                    else Panic 17), w2))"
proof (intro conjI allI impI)
  fix ok w'
  assume "executeArbitrage env c ctx sender asset amount amountOwed w = (Inr ok, w')"
  from executeArbitrage_success[OF this]
  show "\<exists>ia w1 fa w2.
         executeFirstTrade env c ctx asset amount w = (Inr ia, w1) \<and>
         executeSecondTrade env c ctx asset ia amountOwed w1 = (Inr fa, w2) \<and>
         amountOwed \<le> fa \<and>
         (fa - amountOwed) * 10000 \<ge> amountOwed * minProfitBps (store w)"
    by blast
next
  fix ia w1 fa w2
  assume h: "sender = this c
      \<and> executeFirstTrade env c ctx asset amount w = (Inr ia, w1)
      \<and> executeSecondTrade env c ctx asset ia amountOwed w1 = (Inr fa, w2)
      \<and> (int fa - int amountOwed) * 10000 < int (amountOwed * minProfitBps (store w))"
  then have s: "sender = this c"
    and 1: "executeFirstTrade env c ctx asset amount w = (Inr ia, w1)"
    and 2: "executeSecondTrade env c ctx asset ia amountOwed w1 = (Inr fa, w2)"
    and low: "(int fa - int amountOwed) * 10000 < int (amountOwed * minProfitBps (store w))"
    by simp_all
  from executeArbitrage_low_profit[OF s 1 2 low] obtain e where
    run: "executeArbitrage env c ctx sender asset amount amountOwed w = (Inl e, w2)"
    and ok: "amountOwed \<le> fa \<and> amountOwed * minProfitBps (store w) \<le> MAX_UINT256
                \<longrightarrow> e = InsufficientProfit (fa - amountOwed) (amountOwed * minProfitBps (store w) div MAX_BPS)"
    by blast
  show "executeArbitrage env c ctx sender asset amount amountOwed w
            = (Inl (if amountOwed \<le> fa \<and> amountOwed * minProfitBps (store w) \<le> MAX_UINT256
                    then InsufficientProfit (fa - amountOwed)
                           (amountOwed * minProfitBps (store w) div MAX_BPS)
                    else Panic 17), w2)"
  proof (cases "amountOwed \<le> fa \<and> amountOwed * minProfitBps (store w) \<le> MAX_UINT256")
    case True
    with run ok show ?thesis by simp
  next
    case False
    have "e = Panic 17"
    proof (cases "amountOwed \<le> fa")
      case a: False
      with s 1 2 have "executeArbitrage env c ctx sender asset amount amountOwed w
          = (Inl (Panic 17), w2)"
        by (simp add: executeArbitrage_def thn_def lift_def checked_sub_def)
      with run show ?thesis by simp
    next
      case a: True
      with False have b: "\<not> amountOwed * minProfitBps (store w) \<le> MAX_UINT256" by simp
      have st: "store w2 = store w"
        using executeFirstTrade_store[OF 1] executeSecondTrade_store[OF 2] by simp
      from s 1 2 a b st have "executeArbitrage env c ctx sender asset amount amountOwed w
          = (Inl (Panic 17), w2)"
        by (simp add: executeArbitrage_def thn_def lift_def gets_def checked_sub_def
              checked_mul_def)
      with run show ?thesis by simp
    qed
    with run False show ?thesis by simp
  qed
qed

text \<open>
  A borrowed 100 that comes back as 120 passes the check at 100 basis points; a borrowed
  10000 that comes back as 10105 fails it at 200 basis points with
  \<open>InsufficientProfit(105, 200)\<close>.
\<close>

theorem C1_profit_floor_witness:
  "(\<exists>w'. executeArbitrage env0 c0 ctx0 10 1 100 100 \<lparr>store = store0, ext = funded 100\<rparr> = (Inr True, w'))
   \<and> (\<exists>ia w1 fa w2.
         executeFirstTrade env0 c0 ctx0 1 100 \<lparr>store = store0, ext = funded 100\<rparr> = (Inr ia, w1) \<and>
         executeSecondTrade env0 c0 ctx0 1 ia 100 w1 = (Inr fa, w2) \<and>
         100 \<le> fa \<and> (fa - 100) * 10000 \<ge> 100 * 100)
   \<and> (\<exists>w2. executeArbitrage env1 c0 ctx0 10 1 10000 10000 world1
         = (Inl (InsufficientProfit 105 200), w2))"
proof -
  obtain w' where ok: "executeArbitrage env0 c0 ctx0 10 1 100 100 \<lparr>store = store0, ext = funded 100\<rparr> = (Inr True, w')"
    by (simp add: exec_simps arith_defs fun_defs bench_defs)
  have m: "minProfitBps (store \<lparr>store = store0, ext = funded 100\<rparr>) = 100"
    by (simp add: store0_def)
  from C1_profit_floor[THEN conjunct1, rule_format, OF ok] m
  have a: "\<exists>ia w1 fa w2.
         executeFirstTrade env0 c0 ctx0 1 100 \<lparr>store = store0, ext = funded 100\<rparr> = (Inr ia, w1) \<and>
         executeSecondTrade env0 c0 ctx0 1 ia 100 w1 = (Inr fa, w2) \<and>
         100 \<le> fa \<and> (fa - 100) * 10000 \<ge> 100 * 100" by simp
  define w1 where "w1 = snd (executeFirstTrade env1 c0 ctx0 1 10000 world1)"
  have 1: "executeFirstTrade env1 c0 ctx0 1 10000 world1 = (Inr 10000, w1)"
    unfolding w1_def
    by (simp add: exec_simps arith_defs fun_defs bench_defs env1_def rate1_def world1_def)
  obtain w2 where 2: "executeSecondTrade env1 c0 ctx0 1 10000 10000 w1 = (Inr 10105, w2)"
    unfolding w1_def
    by (simp add: exec_simps arith_defs fun_defs bench_defs env1_def rate1_def world1_def)
  have s: "10 = this c0" by (simp add: c0_def)
  have m1: "minProfitBps (store world1) = 200" by (simp add: world1_def store0_def)
  have 3: "(int 10105 - int 10000) * 10000 < int (10000 * minProfitBps (store world1))"
    by (simp add: m1)
  from C1_profit_floor[THEN conjunct2, rule_format, of 10 c0 env1 ctx0 1 10000 world1 10000 w1
      10000 10105 w2] s 1 2 3
  have "executeArbitrage env1 c0 ctx0 10 1 10000 10000 world1
         = (Inl (if (10000::nat) \<le> 10105 \<and> 10000 * minProfitBps (store world1) \<le> MAX_UINT256
                    then InsufficientProfit (10105 - 10000)
                           (10000 * minProfitBps (store world1) div MAX_BPS)
                    else Panic 17), w2)"
    by blast
  then have "\<exists>w2. executeArbitrage env1 c0 ctx0 10 1 10000 10000 world1
         = (Inl (InsufficientProfit 105 200), w2)"
    by (simp add: m1 arith_defs)
  with ok a show ?thesis by blast
qed

text \<open>
  C1 as stated fails where the settlement ends below the debt. The venue quotes 120 units
  of the asset for the second leg and pays out 90 against a debt of 100: the profit ratio
  is below any floor, and the call reverts with \<^verbatim>\<open>Panic(0x11)\<close>, the underflow of
  \<^verbatim>\<open>finalAmount - amountOwed\<close>, not with \<open>InsufficientProfit\<close>. The whole settlement
  reverts with that panic as its reason.
\<close>

theorem C1_loss_panics_counterexample:
  "fst (executeFirstTrade env_short c0 ctx0 1 100 \<lparr>store = store0, ext = funded 100\<rparr>) = Inr 120
   \<and> fst (executeSecondTrade env_short c0 ctx0 1 120 100
        (snd (executeFirstTrade env_short c0 ctx0 1 100 \<lparr>store = store0, ext = funded 100\<rparr>)))
      = Inr 90
   \<and> fst (executeArbitrage env_short c0 ctx0 10 1 100 100 \<lparr>store = store0, ext = funded 100\<rparr>)
      = Inl (Panic 17)
   \<and> transact env_short c0 ctx0 666 (InitiateFlashLoan 1 100) world0
      = (Inl (Reason (Panic 17)), world0)"
proof -
  have 1: "fst (executeFirstTrade env_short c0 ctx0 1 100 \<lparr>store = store0, ext = funded 100\<rparr>)
      = Inr 120"
    by (simp add: exec_simps arith_defs fun_defs bench_defs env_short_def)
  have 2: "fst (executeSecondTrade env_short c0 ctx0 1 120 100
        (snd (executeFirstTrade env_short c0 ctx0 1 100 \<lparr>store = store0, ext = funded 100\<rparr>)))
      = Inr 90"
    by (simp add: exec_simps arith_defs fun_defs bench_defs env_short_def)
  have 3: "fst (executeArbitrage env_short c0 ctx0 10 1 100 100
        \<lparr>store = store0, ext = funded 100\<rparr>) = Inl (Panic 17)"
    by (simp add: exec_simps arith_defs fun_defs bench_defs env_short_def)
  have 4: "transact env_short c0 ctx0 666 (InitiateFlashLoan 1 100) world0
      = (Inl (Reason (Panic 17)), world0)"
    by (simp add: transact_def call_def exec_simps arith_defs fun_defs bench_defs env_short_def)
  from 1 2 3 4 show ?thesis by blast
qed

subsection \<open>The price deviation check\<close>

text \<open>
  The check measures the deviation with \<^verbatim>\<open>_calculateSlippage\<close>, which is 0 whenever the
  new price is not below the old one: no rise of the price is ever rejected.
\<close>

lemma checkPriceDeviation_rise:
  assumes "getAmountsOut env (ext w) (10 ^ 18) [asset, WETH c] = Inr amountsOut"
    and "index amountsOut 1 = Inr currentPrice"
    and "lastKnownPrice (store w) asset \<le> currentPrice"
  shows "checkPriceDeviation env c asset amount w =
     (Inr amountsOut,
      w\<lparr>store := (store w)\<lparr>lastKnownPrice := (lastKnownPrice (store w))(asset := currentPrice)\<rparr>\<rparr>)"
  using assms by (simp add: checkPriceDeviation_def exec_simps calculateSlippage_def)

text \<open>A fall of the price beyond the limit is rejected, and nothing is written.\<close>

lemma checkPriceDeviation_fall:
  assumes "getAmountsOut env (ext w) (10 ^ 18) [asset, WETH c] = Inr amountsOut"
    and "index amountsOut 1 = Inr currentPrice"
    and "currentPrice < lastKnownPrice (store w) asset"
    and "(lastKnownPrice (store w) asset - currentPrice) * 10000 \<le> MAX_UINT256"
    and "maxPriceDeviation (store w)
           < (lastKnownPrice (store w) asset - currentPrice) * 10000 div lastKnownPrice (store w) asset"
  shows "checkPriceDeviation env c asset amount w =
     (Inl (PriceDeviation (lastKnownPrice (store w) asset) currentPrice), w)"
  using assms by (simp add: checkPriceDeviation_def exec_simps calculateSlippage_def arith_defs)

text \<open>
  C4, the failing input. The last known price is \<open>10 ^ 18\<close>, the limit 500 basis points;
  the venue quotes \<open>2 \<times> 10 ^ 18\<close>, a deviation of 10000 basis points. The check returns
  and overwrites the last known price.
\<close>

theorem C4_rise_not_rejected:
  "lastKnownPrice (store world_up) 1 = 10 ^ 18
   \<and> maxPriceDeviation (store world_up) = 500
   \<and> getAmountsOut env_up (ext world_up) (10 ^ 18) [1, WETH c0] = Inr [10 ^ 18, 2 * 10 ^ 18]
   \<and> fst (checkPriceDeviation env_up c0 1 100 world_up) = Inr [10 ^ 18, 2 * 10 ^ 18]
   \<and> lastKnownPrice (store (snd (checkPriceDeviation env_up c0 1 100 world_up))) 1 = 2 * 10 ^ 18"
  by (simp add: world_up_def env_up_def rate_up_def checkPriceDeviation_def exec_simps
        calculateSlippage_def arith_defs bench_defs)

text \<open>The same step downwards, to \<open>5 \<times> 10 ^ 17\<close>, is rejected.\<close>

lemma fall_rejected:
  "checkPriceDeviation env_down c0 1 100 world_up
     = (Inl (PriceDeviation (10 ^ 18) (5 * 10 ^ 17)), world_up)"
  by (simp add: world_up_def env_down_def rate_down_def checkPriceDeviation_def exec_simps
        calculateSlippage_def arith_defs bench_defs)

subsection \<open>The guards of the entry point\<close>

lemma initiateFlashLoan_paused:
  assumes "paused (store w)"
  shows "\<exists>e w1. initiateFlashLoan env c ctx asset amount w = (Inl e, w1) \<and> ext w1 = ext w
           \<and> (\<not> entered (store w) \<longrightarrow> e = Revert ''Pausable: paused'')"
  using assms
  by (simp add: initiateFlashLoan_def nonReentrant_def whenNotPaused_def exec_simps)

lemma initiateFlashLoan_too_soon:
  assumes "number ctx < lastExecutionTime (store w) + MIN_EXECUTION_DELAY"
  shows "\<exists>e w1. initiateFlashLoan env c ctx asset amount w = (Inl e, w1) \<and> ext w1 = ext w
           \<and> (\<not> entered (store w) \<and> \<not> paused (store w) \<and> intermediateToken (store w) \<noteq> 0
               \<and> 0 < amount \<and> amount \<le> maxFlashLoanAmount (store w)
               \<and> lastExecutionTime (store w) \<le> number ctx \<longrightarrow> e = Revert ''Too soon'')"
  using assms
  by (auto simp: initiateFlashLoan_def nonReentrant_def whenNotPaused_def
        initiateFlashLoan_body_def exec_simps thn_lift checked_sub_def)

text \<open>
  C3, the failing input. \<^verbatim>\<open>initiateFlashLoan\<close> has no \<^verbatim>\<open>onlyOwner\<close> modifier and never
  reads its caller, while the repository's test ``Should revert if called by non-owner''
  expects \<^verbatim>\<open>Ownable: caller is not the owner\<close>. Account 666 is not the owner (account
  100) of the example deployment; its call in block 5 does not revert: it borrows 100
  from the lender, trades and settles, the contract keeps the profit of 20, the lender
  has its 1000 back and the settlement is counted.
\<close>

theorem C3_non_owner_initiates:
  "owner (store world0) = 100
   \<and> fst (transact env0 c0 ctx0 666 (InitiateFlashLoan 1 100) world0) = Inr ()
   \<and> ext (snd (transact env0 c0 ctx0 666 (InitiateFlashLoan 1 100) world0)) 1 10 = 20
   \<and> ext (snd (transact env0 c0 ctx0 666 (InitiateFlashLoan 1 100) world0)) 1 21 = 1000
   \<and> successfulTrades (store (snd (transact env0 c0 ctx0 666 (InitiateFlashLoan 1 100) world0))) = 1"
  by (simp add: transact_def call_def exec_simps arith_defs fun_defs bench_defs)

text \<open>The caller is not an argument of the function: every sender gets the same result.\<close>

lemma initiateFlashLoan_any_sender:
  "transact env c ctx sender (InitiateFlashLoan asset amount) w
     = transact env c ctx sender' (InitiateFlashLoan asset amount) w"
  by (simp add: transact_def)

subsection \<open>Composing bodies that respect a relation\<close>

lemma keeps_ret: "reflp R \<Longrightarrow> keeps R (ret a)"
  by (simp add: keeps_def ret_def reflpD)

lemma keeps_throw: "keeps R (throw e)"
  by (simp add: keeps_def throw_def)

lemma keeps_lift: "reflp R \<Longrightarrow> keeps R (lift r)"
  by (simp add: keeps_def lift_def reflpD)

lemma keeps_gets: "reflp R \<Longrightarrow> keeps R (gets g)"
  by (simp add: keeps_def gets_def reflpD)

lemma keeps_view: "reflp R \<Longrightarrow> keeps R (view g)"
  by (simp add: keeps_def view_def reflpD)

lemma keeps_extcall: "reflp R \<Longrightarrow> keeps R (extcall g)"
  by (auto simp: keeps_def extcall_def reflpD split: sum.splits)

lemma keeps_modify: "(\<And>s. R s (g s)) \<Longrightarrow> keeps R (modify g)"
  by (simp add: keeps_def modify_def)

lemma keeps_thn:
  "transp R \<Longrightarrow> keeps R m \<Longrightarrow> (\<And>a. keeps R (f a)) \<Longrightarrow> keeps R (thn m f)"
  unfolding keeps_def thn_Inr_iff by (blast dest: transpD)

lemma keeps_if:
  "(b \<Longrightarrow> keeps R m1) \<Longrightarrow> (\<not> b \<Longrightarrow> keeps R m2) \<Longrightarrow> keeps R (if b then m1 else m2)"
  by simp

lemma keeps_call: "keeps R m \<Longrightarrow> keeps R (call m)"
  by (auto simp: keeps_def call_def split: sum.splits prod.splits)

lemma keeps_fails: "fails m \<Longrightarrow> keeps R m"
  by (simp add: keeps_def fails_def)

lemma fails_throw: "fails (throw e)"
  by (simp add: fails_def throw_def)

lemma fails_thn: "(\<And>a. fails (f a)) \<Longrightarrow> fails (thn m f)"
  by (auto simp: fails_def thn_def split: sum.splits prod.splits)

lemma keeps_try:
  "keeps R m \<Longrightarrow> (\<And>e. keeps R (h e)) \<Longrightarrow> keeps R (try_catch m h)"
  by (auto simp: keeps_def try_catch_def call_def split: sum.splits prod.splits)

lemma keeps_discard: "reflp R \<Longrightarrow> transp R \<Longrightarrow> keeps R m \<Longrightarrow> keeps R (discard m)"
  by (simp add: discard_def keeps_thn keeps_ret)

lemmas keeps_intros = keeps_ret keeps_throw keeps_lift keeps_gets keeps_view
  keeps_extcall keeps_thn keeps_if keeps_call keeps_try keeps_discard

lemma reflp_steady: "reflp steady"
  by (simp add: reflp_def steady_def)

lemma transp_steady: "transp steady"
  by (auto simp: transp_def steady_def)

lemmas steady_rules = reflp_steady transp_steady

subsection \<open>Every function of the contract is steady\<close>

lemma steady_executeFirstTrade: "keeps steady (executeFirstTrade env c ctx asset amount)"
  unfolding executeFirstTrade_def by (intro keeps_intros steady_rules allI)

lemma steady_executeSecondTrade:
  "keeps steady (executeSecondTrade env c ctx asset amount mr)"
  unfolding executeSecondTrade_def by (intro keeps_intros steady_rules allI)

lemma steady_executeArbitrage:
  "keeps steady (executeArbitrage env c ctx sender asset amount amountOwed)"
  unfolding executeArbitrage_def
  by (intro keeps_intros steady_rules allI steady_executeFirstTrade steady_executeSecondTrade
        keeps_modify) (simp add: steady_def)

lemma steady_calculatePriceImpact: "keeps steady (calculatePriceImpact env c token amount)"
  unfolding calculatePriceImpact_def getCurrentPrice_def
  by (intro keeps_intros steady_rules allI)

text \<open>The \<^verbatim>\<open>catch\<close> clause never returns.\<close>

lemma fails_catch:
  "fails (thn (gets failedTrades) (\<lambda>n.
          thn (lift (checked_add n 1)) (\<lambda>n1.
          thn (modify (\<lambda>s. s\<lparr>failedTrades := n1\<rparr>)) (\<lambda>_.
          throw (Reason reason)))))"
  by (intro fails_thn fails_throw)

lemma steady_bookkeeping:
  "keeps steady
     (thn (gets successfulTrades) (\<lambda>n.
      thn (lift (checked_add n 1)) (\<lambda>n1.
      thn (modify (\<lambda>s. s\<lparr>successfulTrades := n1\<rparr>)) (\<lambda>_.
      thn (gets totalGasUsed) (\<lambda>g.
      thn (lift (checked_add g (gasUsed ctx))) (\<lambda>g1.
      thn (modify (\<lambda>s. s\<lparr>totalGasUsed := g1\<rparr>)) (\<lambda>_.
      thn (view (\<lambda>e. balanceOf env e asset (this c))) (\<lambda>balance.
      thn (lift (calculateSlippage amount balance)) (\<lambda>_.
      thn (calculatePriceImpact env c asset amount) (\<lambda>_.
      ret ()))))))))))"
proof -
  have tail: "\<And>g1. keeps steady
      (thn (view (\<lambda>e. balanceOf env e asset (this c))) (\<lambda>balance.
       thn (lift (calculateSlippage amount balance)) (\<lambda>_.
       thn (calculatePriceImpact env c asset amount) (\<lambda>_.
       ret ()))))"
    by (intro keeps_intros steady_rules allI steady_calculatePriceImpact)
  show ?thesis
    unfolding keeps_def
  proof (intro allI impI)
    fix w :: "'a world" and a w'
    assume run: "thn (gets successfulTrades) (\<lambda>n.
      thn (lift (checked_add n 1)) (\<lambda>n1.
      thn (modify (\<lambda>s. s\<lparr>successfulTrades := n1\<rparr>)) (\<lambda>_.
      thn (gets totalGasUsed) (\<lambda>g.
      thn (lift (checked_add g (gasUsed ctx))) (\<lambda>g1.
      thn (modify (\<lambda>s. s\<lparr>totalGasUsed := g1\<rparr>)) (\<lambda>_.
      thn (view (\<lambda>e. balanceOf env e asset (this c))) (\<lambda>balance.
      thn (lift (calculateSlippage amount balance)) (\<lambda>_.
      thn (calculatePriceImpact env c asset amount) (\<lambda>_.
      ret ()))))))))) w = (Inr a, w')"
    define w2 where "w2 = w\<lparr>store := (store w)\<lparr>successfulTrades := successfulTrades (store w) + 1,
        totalGasUsed := totalGasUsed (store w) + gasUsed ctx\<rparr>\<rparr>"
    from run have "thn (view (\<lambda>e. balanceOf env e asset (this c))) (\<lambda>balance.
       thn (lift (calculateSlippage amount balance)) (\<lambda>_.
       thn (calculatePriceImpact env c asset amount) (\<lambda>_.
       ret ()))) w2 = (Inr a, w')"
      unfolding w2_def
      by (simp add: thn_gets thn_modify thn_lift checked_add_def split: if_splits)
    with tail have "steady (store w2) (store w')" unfolding keeps_def by blast
    then show "steady (store w) (store w')"
      by (simp add: w2_def steady_def)
  qed
qed

lemma steady_executeOperation:
  "keeps steady (executeOperation env c ctx sender asset amount premium initiator)"
  unfolding executeOperation_def
  by (intro keeps_intros steady_rules allI steady_executeArbitrage keeps_fails fails_catch
        steady_bookkeeping)

lemma steady_checkPriceDeviation: "keeps steady (checkPriceDeviation env c asset amount)"
  unfolding checkPriceDeviation_def
  by (intro keeps_intros steady_rules allI keeps_modify) (simp add: steady_def)

lemma steady_calculateEstimatedProfit:
  "keeps steady (calculateEstimatedProfit env asset amount amountsOut)"
  unfolding calculateEstimatedProfit_def by (intro keeps_intros steady_rules allI)

lemma steady_setupFlashLoan: "keeps steady (setupFlashLoan env c asset amount)"
  unfolding setupFlashLoan_def by (intro keeps_intros steady_rules allI)

lemma steady_flashLoanSimple:
  "(\<And>a b p i. keeps steady (cb a b p i)) \<Longrightarrow>
     keeps steady (flashLoanSimple env cb caller receiver asset amount)"
  unfolding flashLoanSimple_def by (intro keeps_intros steady_rules allI)

lemma steady_nonReentrant: "keeps steady body \<Longrightarrow> keeps steady (nonReentrant body)"
  unfolding nonReentrant_def
  by (intro keeps_intros steady_rules allI keeps_modify) (simp_all add: steady_def)

lemma steady_whenNotPaused: "keeps steady body \<Longrightarrow> keeps steady (whenNotPaused body)"
  unfolding whenNotPaused_def by (intro keeps_intros steady_rules allI)

lemma steady_onlyOwner: "keeps steady body \<Longrightarrow> keeps steady (onlyOwner sender body)"
  unfolding onlyOwner_def by (intro keeps_intros steady_rules allI)

lemma steady_initiateFlashLoan: "keeps steady (initiateFlashLoan env c ctx asset amount)"
  unfolding initiateFlashLoan_def initiateFlashLoan_body_def
  by (intro steady_nonReentrant steady_whenNotPaused keeps_intros steady_rules allI
        keeps_modify steady_checkPriceDeviation steady_calculateEstimatedProfit
        steady_setupFlashLoan steady_flashLoanSimple steady_executeOperation)
     (simp add: steady_def)

lemma steady_dispatch: "keeps steady (dispatch env c ctx sender t)"
proof (cases t)
  case (InitiateFlashLoan asset amount)
  then show ?thesis by (simp add: steady_initiateFlashLoan)
next
  case (ExecuteOperation asset amount premium initiator)
  then show ?thesis
    by (simp add: keeps_discard steady_rules steady_executeOperation)
next
  case (ExecuteArbitrage asset amount amountOwed)
  then show ?thesis
    by (simp add: keeps_discard steady_rules steady_executeArbitrage)
next
  case (EmergencyWithdraw token to)
  then show ?thesis
    unfolding EmergencyWithdraw dispatch.simps emergencyWithdraw_def
    by (intro steady_onlyOwner steady_nonReentrant keeps_intros steady_rules allI)
qed (auto simp: setMaxFlashLoanAmount_def setMinProfitBps_def setMaxPriceDeviation_def
       setMaxSlippage_def setIntermediateToken_def transferOwnership_def renounceOwnership_def
       steady_def
     intro!: steady_onlyOwner keeps_if keeps_throw keeps_modify)

lemma steady_transact:
  assumes "transact env c ctx sender t w = (r, w')"
  shows "steady (store w) (store w')"
proof (cases "dispatch env c ctx sender t w")
  case (Pair r1 w1)
  show ?thesis
  proof (cases r1)
    case (Inl e)
    with Pair assms have "w' = w" by (simp add: transact_def call_def)
    then show ?thesis using reflp_steady by (simp add: reflpD)
  next
    case (Inr a)
    with Pair assms have "w' = w1" by (simp add: transact_def call_def)
    with Pair Inr steady_dispatch[of env c ctx sender t] show ?thesis
      by (simp add: keeps_def)
  qed
qed

lemma reachable_failedTrades:
  "reachable env c w \<Longrightarrow> failedTrades (store w) = 0 \<and> \<not> paused (store w)"
proof (induction rule: reachable.induct)
  case (deployed deployer maxAmount minBps s e)
  then show ?case by (auto simp: constructor_def split: if_splits)
next
  case (transacted w ctx sender t r w')
  from steady_transact[OF transacted.hyps(2)] transacted.IH show ?case
    by (simp add: steady_def)
next
  case (outside w e)
  then show ?case by simp
qed

subsection \<open>The count of failed trades\<close>



text \<open>
  The only statement that writes \<^verbatim>\<open>failedTrades\<close>: when the inner call reverts with
  \<open>e\<close>, the callback counts the failure and reverts with \<open>Reason e\<close>; as a message
  call it leaves the world as it was, the count included.
\<close>

lemma executeOperation_catch:
  assumes "sender = lendingPool c" and "initiator = this c"
    and "checked_add amount premium = Inr amountOwed"
    and "executeArbitrage env c ctx (this c) asset amount amountOwed w = (Inl e, w1)"
    and "failedTrades (store w) < MAX_UINT256"
  shows "executeOperation env c ctx sender asset amount premium initiator w
           = (Inl (Reason e), w\<lparr>store := (store w)\<lparr>failedTrades := failedTrades (store w) + 1\<rparr>\<rparr>)"
    and "call (executeOperation env c ctx sender asset amount premium initiator) w
           = (Inl (Reason e), w)"
  using assms by (simp_all add: executeOperation_def exec_simps call_def checked_add_def)

text \<open>
  C10. In every reachable state of the contract \<^verbatim>\<open>failedTrades\<close> is 0. Hence whenever
  \<^verbatim>\<open>getTradeStatistics\<close> reports a positive number of trades, the success rate it
  reports is 10000; and it reports, with that rate, whenever there is a successful trade
  and \<open>successfulTrades \<times> 10000\<close> is a \<^verbatim>\<open>uint256\<close>.
\<close>

theorem C10_failedTrades_zero:
  assumes "reachable env c w"
  shows "failedTrades (store w) = 0
   \<and> (\<forall>tp avg sr tt. getTradeStatistics (store w) = Inr (tp, avg, sr, tt) \<and> 0 < tt
         \<longrightarrow> sr = 10000)
   \<and> (0 < successfulTrades (store w) \<and> successfulTrades (store w) * 10000 \<le> MAX_UINT256
         \<longrightarrow> getTradeStatistics (store w)
             = Inr (totalProfitGenerated (store w),
                    totalGasUsed (store w) div successfulTrades (store w),
                    10000, successfulTrades (store w)))"
proof -
  from reachable_failedTrades[OF assms] have z: "failedTrades (store w) = 0" by simp
  have a: "\<forall>tp avg sr tt. getTradeStatistics (store w) = Inr (tp, avg, sr, tt) \<and> 0 < tt
         \<longrightarrow> sr = 10000"
    using z by (auto simp: getTradeStatistics_def arith_defs split: if_splits)
  have b: "0 < successfulTrades (store w) \<and> successfulTrades (store w) * 10000 \<le> MAX_UINT256
         \<longrightarrow> getTradeStatistics (store w)
             = Inr (totalProfitGenerated (store w),
                    totalGasUsed (store w) div successfulTrades (store w),
                    10000, successfulTrades (store w))"
    using z by (auto simp: getTradeStatistics_def arith_defs)
  from z a b show ?thesis by blast
qed


text \<open>
  The example deployment is reachable: the constructor, then the owner sets the
  intermediate token. After one settlement the statistics are: profit 20, average gas
  150000, success rate 10000, one trade.
\<close>

lemma reachable_world0: "reachable env0 c0 world0"
proof -
  have "constructor 100 c0 1000 100 = Inr (store0\<lparr>intermediateToken := 0\<rparr>)"
    by (simp add: constructor_def c0_def store0_def MAX_BPS_def)
  then have "reachable env0 c0 \<lparr>store = store0\<lparr>intermediateToken := 0\<rparr>, ext = ledger0\<rparr>"
    by (rule reachable.deployed)
  moreover have "transact env0 c0 ctx0 100 (SetIntermediateToken 2)
      \<lparr>store = store0\<lparr>intermediateToken := 0\<rparr>, ext = ledger0\<rparr> = (Inr (), world0)"
    by (simp add: transact_def call_def setIntermediateToken_def onlyOwner_def exec_simps
          world0_def store0_def)
  ultimately show ?thesis by (rule reachable.transacted)
qed

theorem C10_failedTrades_zero_witness:
  "reachable env0 c0 (snd (transact env0 c0 ctx0 666 (InitiateFlashLoan 1 100) world0))
   \<and> failedTrades (store (snd (transact env0 c0 ctx0 666 (InitiateFlashLoan 1 100) world0))) = 0
   \<and> getTradeStatistics (store (snd (transact env0 c0 ctx0 666 (InitiateFlashLoan 1 100) world0)))
       = Inr (20, 150000, 10000, 1)"
proof -
  define w where "w = snd (transact env0 c0 ctx0 666 (InitiateFlashLoan 1 100) world0)"
  have "transact env0 c0 ctx0 666 (InitiateFlashLoan 1 100) world0
      = (fst (transact env0 c0 ctx0 666 (InitiateFlashLoan 1 100) world0), w)"
    by (simp add: w_def)
  with reachable_world0 have r: "reachable env0 c0 w" by (rule reachable.transacted)
  have v: "successfulTrades (store w) = 1 \<and> totalProfitGenerated (store w) = 20
    \<and> totalGasUsed (store w) = 150000"
    unfolding w_def
    by (simp add: transact_def call_def exec_simps arith_defs fun_defs bench_defs)
  note t = C10_failedTrades_zero[OF r]
  from t have f: "failedTrades (store w) = 0" by (rule conjunct1)
  from t have "0 < successfulTrades (store w) \<and> successfulTrades (store w) * 10000 \<le> MAX_UINT256
         \<longrightarrow> getTradeStatistics (store w)
             = Inr (totalProfitGenerated (store w),
                    totalGasUsed (store w) div successfulTrades (store w),
                    10000, successfulTrades (store w))"
    by (rule conjunct2[THEN conjunct2])
  moreover have "0 < successfulTrades (store w) \<and> successfulTrades (store w) * 10000 \<le> MAX_UINT256"
    using v by (simp add: MAX_UINT256_def)
  ultimately have "getTradeStatistics (store w)
             = Inr (totalProfitGenerated (store w),
                    totalGasUsed (store w) div successfulTrades (store w),
                    10000, successfulTrades (store w))"
    by (rule mp)
  with v have "getTradeStatistics (store w) = Inr (20, 150000, 10000, 1)" by simp
  with r f show ?thesis unfolding w_def by blast
qed

subsection \<open>Atomic settlement\<close>

lemma call_Inl: "call m w = (Inl e, w') \<Longrightarrow> w' = w"
  by (auto simp: call_def split: sum.splits prod.splits)

lemma call_Inr: "call m w = (Inr a, w') \<Longrightarrow> m w = (Inr a, w')"
  by (auto simp: call_def split: sum.splits prod.splits)

lemma nonReentrant_Inr:
  assumes "nonReentrant body w = (Inr a, w')"
  shows "\<exists>w1. body (w\<lparr>store := (store w)\<lparr>entered := True\<rparr>\<rparr>) = (Inr a, w1)
           \<and> w' = w1\<lparr>store := (store w1)\<lparr>entered := False\<rparr>\<rparr>"
  using assms
  by (auto simp: nonReentrant_def thn_gets thn_modify throw_app thn_Inr_iff ret_app
        split: if_splits)

lemma whenNotPaused_Inr: "whenNotPaused body w = (Inr a, w') \<Longrightarrow> body w = (Inr a, w')"
  by (auto simp: whenNotPaused_def thn_gets throw_app split: if_splits)

lemma flashLoanSimple_Inr:
  assumes "flashLoanSimple env cb caller receiver asset amount w = (Inr u, w')"
  shows "\<exists>premium w1 w2.
      extcall (lend env receiver asset amount) w = (Inr premium, w1)
    \<and> cb asset amount premium caller w1 = (Inr True, w2)
    \<and> extcall (collect env receiver asset amount premium) w2 = (Inr u, w')"
proof -
  from assms obtain premium w1 ok w2 where
    1: "extcall (lend env receiver asset amount) w = (Inr premium, w1)"
    and 2: "call (cb asset amount premium caller) w1 = (Inr ok, w2)"
    and 3: "(if \<not> ok then throw (Revert ''Flash loan execution failed'')
             else extcall (collect env receiver asset amount premium)) w2 = (Inr u, w')"
    unfolding flashLoanSimple_def thn_Inr_iff by blast
  from 3 have ok: ok and 4: "extcall (collect env receiver asset amount premium) w2 = (Inr u, w')"
    by (auto simp: throw_app split: if_splits)
  from call_Inr[OF 2] ok have "cb asset amount premium caller w1 = (Inr True, w2)" by simp
  with 1 4 show ?thesis by blast
qed

text \<open>The bookkeeping of the callback leaves the outside world alone.\<close>

lemma bookkeeping_ext:
  assumes "thn (gets successfulTrades) (\<lambda>n.
      thn (lift (checked_add n 1)) (\<lambda>n1.
      thn (modify (\<lambda>s. s\<lparr>successfulTrades := n1\<rparr>)) (\<lambda>_.
      thn (gets totalGasUsed) (\<lambda>g.
      thn (lift (checked_add g (gasUsed ctx))) (\<lambda>g1.
      thn (modify (\<lambda>s. s\<lparr>totalGasUsed := g1\<rparr>)) (\<lambda>_.
      thn (view (\<lambda>e. balanceOf env e asset (this c))) (\<lambda>balance.
      thn (lift (calculateSlippage amount balance)) (\<lambda>_.
      thn (calculatePriceImpact env c asset amount) (\<lambda>_.
      ret ()))))))))) w = (r, w')"
  shows "ext w' = ext w"
  using assms
  by (auto simp: exec_simps thn_lift calculatePriceImpact_def getCurrentPrice_def
        split: sum.splits if_splits)

lemma executeOperation_Inr:
  assumes "executeOperation env c ctx sender asset amount premium initiator w = (Inr ok, w')"
  shows "sender = lendingPool c \<and> initiator = this c \<and> ok
    \<and> (\<exists>w1. executeArbitrage env c ctx (this c) asset amount (amount + premium) w = (Inr True, w1)
           \<and> ext w' = ext w1)"
proof -
  from assms have s: "sender = lendingPool c" and i: "initiator = this c"
    by (auto simp: executeOperation_def throw_app split: if_splits)
  from assms s i obtain amountOwed where
    o: "checked_add amount premium = Inr amountOwed"
    by (auto simp: executeOperation_def thn_lift split: sum.splits)
  then have owed: "amountOwed = amount + premium"
    by (auto simp: checked_add_def split: if_splits)
  from assms s i o have run: "thn (try_catch (executeArbitrage env c ctx (this c) asset amount amountOwed)
             (\<lambda>reason.
                thn (gets failedTrades) (\<lambda>n.
                thn (lift (checked_add n 1)) (\<lambda>n1.
                thn (modify (\<lambda>s. s\<lparr>failedTrades := n1\<rparr>)) (\<lambda>_.
                throw (Reason reason)))))) (\<lambda>success.
      thn (if success then
             thn (gets successfulTrades) (\<lambda>n.
             thn (lift (checked_add n 1)) (\<lambda>n1.
             thn (modify (\<lambda>s. s\<lparr>successfulTrades := n1\<rparr>)) (\<lambda>_.
             thn (gets totalGasUsed) (\<lambda>g.
             thn (lift (checked_add g (gasUsed ctx))) (\<lambda>g1.
             thn (modify (\<lambda>s. s\<lparr>totalGasUsed := g1\<rparr>)) (\<lambda>_.
             thn (view (\<lambda>e. balanceOf env e asset (this c))) (\<lambda>balance.
             thn (lift (calculateSlippage amount balance)) (\<lambda>_.
             thn (calculatePriceImpact env c asset amount) (\<lambda>_.
             ret ())))))))))
           else ret ()) (\<lambda>_.
      ret success)) w = (Inr ok, w')"
    by (simp add: executeOperation_def thn_lift_Inr)
  show ?thesis
  proof (cases "executeArbitrage env c ctx (this c) asset amount amountOwed w")
    case (Pair r w1)
    show ?thesis
    proof (cases r)
      case (Inl e)
      with Pair run have False
        by (auto simp: thn_try thn_Inr_iff throw_app)
      then show ?thesis ..
    next
      case (Inr success)
      with Pair have ea: "executeArbitrage env c ctx (this c) asset amount amountOwed w
          = (Inr success, w1)" by simp
      from executeArbitrage_success[OF ea] have t: success by blast
      from run Pair Inr t obtain u where
        bk: "thn (gets successfulTrades) (\<lambda>n.
             thn (lift (checked_add n 1)) (\<lambda>n1.
             thn (modify (\<lambda>s. s\<lparr>successfulTrades := n1\<rparr>)) (\<lambda>_.
             thn (gets totalGasUsed) (\<lambda>g.
             thn (lift (checked_add g (gasUsed ctx))) (\<lambda>g1.
             thn (modify (\<lambda>s. s\<lparr>totalGasUsed := g1\<rparr>)) (\<lambda>_.
             thn (view (\<lambda>e. balanceOf env e asset (this c))) (\<lambda>balance.
             thn (lift (calculateSlippage amount balance)) (\<lambda>_.
             thn (calculatePriceImpact env c asset amount) (\<lambda>_.
             ret ()))))))))) w1 = (Inr u, w')" and ok
        by (auto simp: thn_try thn_Inr_iff ret_app)
      from bookkeeping_ext[OF bk] ea t s i owed \<open>ok\<close> show ?thesis by auto
    qed
  qed
qed

lemma checkPriceDeviation_ext:
  "checkPriceDeviation env c asset amount w = (r, w') \<Longrightarrow> ext w' = ext w"
  by (auto simp: checkPriceDeviation_def exec_simps thn_lift split: sum.splits if_splits)

lemma calculateEstimatedProfit_ext:
  "calculateEstimatedProfit env asset amount amountsOut w = (r, w') \<Longrightarrow> ext w' = ext w"
  by (auto simp: calculateEstimatedProfit_def exec_simps thn_lift split: sum.splits if_splits)

lemma initiateFlashLoan_body_Inr:
  assumes "initiateFlashLoan_body env c ctx asset amount w = (Inr u, w')"
  shows "\<exists>w1 w2. ext w1 = ext w
    \<and> setupFlashLoan env c asset amount w1 = (Inr (), w2)
    \<and> flashLoanSimple env (executeOperation env c ctx (lendingPool c)) (this c) (this c)
         asset amount w2 = (Inr u, w')"
proof -
  from assms obtain amountsOut wa est wb w2 where
    1: "checkPriceDeviation env c asset amount
          (w\<lparr>store := (store w)\<lparr>lastExecutionTime := number ctx\<rparr>\<rparr>) = (Inr amountsOut, wa)"
    and 2: "calculateEstimatedProfit env asset amount amountsOut wa = (Inr est, wb)"
    and 3: "setupFlashLoan env c asset amount wb = (Inr (), w2)"
    and 4: "flashLoanSimple env (executeOperation env c ctx (lendingPool c)) (this c) (this c)
         asset amount w2 = (Inr u, w')"
    by (auto simp: initiateFlashLoan_body_def thn_gets throw_app thn_lift thn_modify thn_Inr_iff
          split: if_splits sum.splits)
  from checkPriceDeviation_ext[OF 1] calculateEstimatedProfit_ext[OF 2]
  have "ext wb = ext w" by simp
  with 3 4 show ?thesis by blast
qed

text \<open>
  C2. A transaction that reverts, for whatever reason and in whatever function, leaves
  the contract's storage and the outside world, so every balance, exactly as they were.
  A call of \<^verbatim>\<open>initiateFlashLoan\<close> that commits has run the whole sequence: the approvals,
  the loan, the first leg, the second leg with a final amount that covers the debt, and
  the repayment; what it leaves outside is what the repayment left.
\<close>

theorem C2_atomic_settlement:
  fixes env :: "'e env"
  shows "(\<forall>t e w'. transact env c ctx sender t w = (Inl e, w') \<longrightarrow> w' = w)
   \<and> (\<forall>u w'. transact env c ctx sender (InitiateFlashLoan asset amount) w = (Inr u, w') \<longrightarrow>
        (\<exists>w0 w1 premium w2 ia w3 fa w4 w5 w6.
            ext w0 = ext w
          \<and> setupFlashLoan env c asset amount w0 = (Inr (), w1)
          \<and> extcall (lend env (this c) asset amount) w1 = (Inr premium, w2)
          \<and> executeFirstTrade env c ctx asset amount w2 = (Inr ia, w3)
          \<and> executeSecondTrade env c ctx asset ia (amount + premium) w3 = (Inr fa, w4)
          \<and> amount + premium \<le> fa
          \<and> ext w5 = ext w4
          \<and> extcall (collect env (this c) asset amount premium) w5 = (Inr (), w6)
          \<and> ext w' = ext w6))"
proof (intro conjI allI impI)
  fix t e w'
  assume "transact env c ctx sender t w = (Inl e, w')"
  then show "w' = w" unfolding transact_def by (rule call_Inl)
next
  fix u w'
  assume "transact env c ctx sender (InitiateFlashLoan asset amount) w = (Inr u, w')"
  then have "dispatch env c ctx sender (InitiateFlashLoan asset amount) w = (Inr u, w')"
    unfolding transact_def by (rule call_Inr)
  then have "initiateFlashLoan env c ctx asset amount w = (Inr u, w')"
    by simp
  then have "nonReentrant (whenNotPaused (initiateFlashLoan_body env c ctx asset amount)) w
      = (Inr u, w')"
    unfolding initiateFlashLoan_def .
  from nonReentrant_Inr[OF this] obtain wz where
    b0: "whenNotPaused (initiateFlashLoan_body env c ctx asset amount)
          (w\<lparr>store := (store w)\<lparr>entered := True\<rparr>\<rparr>) = (Inr u, wz)"
    and w': "w' = wz\<lparr>store := (store wz)\<lparr>entered := False\<rparr>\<rparr>"
    by blast
  from whenNotPaused_Inr[OF b0] have
    b: "initiateFlashLoan_body env c ctx asset amount
          (w\<lparr>store := (store w)\<lparr>entered := True\<rparr>\<rparr>) = (Inr u, wz)" .
  from initiateFlashLoan_body_Inr[OF b] obtain w0 w1 where
    z: "ext w0 = ext (w\<lparr>store := (store w)\<lparr>entered := True\<rparr>\<rparr>)"
    and 1: "setupFlashLoan env c asset amount w0 = (Inr (), w1)"
    and f: "flashLoanSimple env (executeOperation env c ctx (lendingPool c)) (this c) (this c)
         asset amount w1 = (Inr u, wz)"
    by blast
  from z have 0: "ext w0 = ext w" by simp
  from flashLoanSimple_Inr[OF f] obtain premium w2 w5 where
    2: "extcall (lend env (this c) asset amount) w1 = (Inr premium, w2)"
    and cb: "executeOperation env c ctx (lendingPool c) asset amount premium (this c) w2
         = (Inr True, w5)"
    and 6: "extcall (collect env (this c) asset amount premium) w5 = (Inr u, wz)"
    by blast
  from executeOperation_Inr[OF cb] obtain wa where
    ea: "executeArbitrage env c ctx (this c) asset amount (amount + premium) w2 = (Inr True, wa)"
    and 5: "ext w5 = ext wa"
    by blast
  from executeArbitrage_success[OF ea] obtain ia w3 fa w4 where
    3: "executeFirstTrade env c ctx asset amount w2 = (Inr ia, w3)"
    and 4: "executeSecondTrade env c ctx asset ia (amount + premium) w3 = (Inr fa, w4)"
    and le: "amount + premium \<le> fa"
    and wa: "wa = w4\<lparr>store := (store w4)\<lparr>totalProfitGenerated :=
             (totalProfitGenerated (store w4) + (fa - (amount + premium))) mod 2 ^ 256\<rparr>\<rparr>"
    by blast
  from 5 wa have k: "ext w5 = ext w4" by simp
  from w' have 7: "ext w' = ext wz" by simp
  from 6 have 8: "extcall (collect env (this c) asset amount premium) w5 = (Inr (), wz)"
    by simp
  show "\<exists>w0 w1 premium w2 ia w3 fa w4 w5 w6.
            ext w0 = ext w
          \<and> setupFlashLoan env c asset amount w0 = (Inr (), w1)
          \<and> extcall (lend env (this c) asset amount) w1 = (Inr premium, w2)
          \<and> executeFirstTrade env c ctx asset amount w2 = (Inr ia, w3)
          \<and> executeSecondTrade env c ctx asset ia (amount + premium) w3 = (Inr fa, w4)
          \<and> amount + premium \<le> fa
          \<and> ext w5 = ext w4
          \<and> extcall (collect env (this c) asset amount premium) w5 = (Inr (), w6)
          \<and> ext w' = ext w6"
    apply (rule exI[of _ w0], rule exI[of _ w1], rule exI[of _ premium], rule exI[of _ w2])
    apply (rule exI[of _ ia], rule exI[of _ w3], rule exI[of _ fa], rule exI[of _ w4])
    apply (rule exI[of _ w5], rule exI[of _ wz])
    using 0 1 2 3 4 le k 8 7 by simp
qed

text \<open>
  With the venue that pays out 104 for a quote of 110, the settlement reverts inside the
  first leg, after the loan has been handed out; the transaction reverts with the error
  of the leg as its reason and the world is the one before. With the honest venue the
  transaction commits.
\<close>

theorem C2_atomic_settlement_witness:
  "transact env_slip c0 ctx0 666 (InitiateFlashLoan 1 100)
      \<lparr>store = store0\<lparr>maxSlippage := 500\<rparr>, ext = ledger0\<rparr>
     = (Inl (Reason (ExcessiveSlippage 105 104)),
        \<lparr>store = store0\<lparr>maxSlippage := 500\<rparr>, ext = ledger0\<rparr>)
   \<and> fst (transact env0 c0 ctx0 666 (InitiateFlashLoan 1 100) world0) = Inr ()
   \<and> (\<exists>w1 premium w2 ia w3 fa w4.
          extcall (lend env0 (this c0) 1 100) w1 = (Inr premium, w2)
        \<and> executeFirstTrade env0 c0 ctx0 1 100 w2 = (Inr ia, w3)
        \<and> executeSecondTrade env0 c0 ctx0 1 ia (100 + premium) w3 = (Inr fa, w4)
        \<and> 100 + premium \<le> fa)"
proof -
  define w where "w = \<lparr>store = store0\<lparr>maxSlippage := 500\<rparr>, ext = ledger0\<rparr>"
  define w' where "w' = snd (transact env_slip c0 ctx0 666 (InitiateFlashLoan 1 100) w)"
  have "fst (transact env_slip c0 ctx0 666 (InitiateFlashLoan 1 100) w)
      = Inl (Reason (ExcessiveSlippage 105 104))"
    unfolding w_def
    by (simp add: transact_def call_def exec_simps arith_defs fun_defs bench_defs env_slip_def)
  then have e: "transact env_slip c0 ctx0 666 (InitiateFlashLoan 1 100) w
      = (Inl (Reason (ExcessiveSlippage 105 104)), w')"
    unfolding w'_def by (metis prod.collapse)
  from C2_atomic_settlement[THEN conjunct1, rule_format, OF e] have "w' = w" .
  with e have a: "transact env_slip c0 ctx0 666 (InitiateFlashLoan 1 100) w
      = (Inl (Reason (ExcessiveSlippage 105 104)), w)" by simp
  define v where "v = snd (transact env0 c0 ctx0 666 (InitiateFlashLoan 1 100) world0)"
  have f: "fst (transact env0 c0 ctx0 666 (InitiateFlashLoan 1 100) world0) = Inr ()"
    by (simp add: transact_def call_def exec_simps arith_defs fun_defs bench_defs)
  then have s: "transact env0 c0 ctx0 666 (InitiateFlashLoan 1 100) world0 = (Inr (), v)"
    unfolding v_def by (metis prod.collapse)
  from C2_atomic_settlement[THEN conjunct2, rule_format, OF s]
  have "\<exists>w1 premium w2 ia w3 fa w4.
          extcall (lend env0 (this c0) 1 100) w1 = (Inr premium, w2)
        \<and> executeFirstTrade env0 c0 ctx0 1 100 w2 = (Inr ia, w3)
        \<and> executeSecondTrade env0 c0 ctx0 1 ia (100 + premium) w3 = (Inr fa, w4)
        \<and> 100 + premium \<le> fa"
    by blast
  with a f show ?thesis unfolding w_def by blast
qed

subsection \<open>The emergency stop\<close>

text \<open>
  In the script the product of the gas price and the gas estimate, a BigInt, is
  multiplied by the Number 2200: the statement that adds to \<^verbatim>\<open>totalLoss\<close> throws, and
  the one that adds to \<^verbatim>\<open>totalGasUsed\<close> is never reached.
\<close>

lemma js_mul_BigInt:
  "js_mul x (BigInt g) = Some y \<Longrightarrow> \<exists>z. y = BigInt z"
  by (cases x) auto

text \<open>A trade attempt changes neither the totals nor, unless the stop trips, the flag.\<close>

lemma executeArbitrage_js_stop:
  "emergencyStopActive (snd (executeArbitrage_js b name opp net))
     = emergencyStopActive (snd (checkEmergencyStop b))
   \<and> totalLoss (snd (executeArbitrage_js b name opp net)) = totalLoss b
   \<and> totalGasUsed_js (snd (executeArbitrage_js b name opp net)) = totalGasUsed_js b"
proof (cases "checkEmergencyStop b")
  case (Pair stop b1)
  then have b1: "totalLoss b1 = totalLoss b" "totalGasUsed_js b1 = totalGasUsed_js b"
    by (auto simp: checkEmergencyStop_def split: if_splits)
  show ?thesis
  proof (cases net)
    case NetworkError
    with Pair b1 show ?thesis by (simp add: executeArbitrage_js_def)
  next
    case SimulationReverted
    with Pair b1 show ?thesis by (simp add: executeArbitrage_js_def)
  next
    case (Submitted included)
    show ?thesis
    proof (cases "js_mul (arb_gasPrice opp) (BigInt (estimatedGasUsed name))")
      case None
      with Pair b1 Submitted show ?thesis by (simp add: executeArbitrage_js_def)
    next
      case (Some gasSpent)
      then obtain z where z: "gasSpent = BigInt z" using js_mul_BigInt by blast
      obtain fin st where u: "updateExecutionStats (executionStats b1) included (arb_profit opp)
          gasSpent = (fin, st)" by (cases "updateExecutionStats (executionStats b1) included
          (arb_profit opp) gasSpent")
      from Pair b1 Submitted Some z u show ?thesis
        by (cases fin) (simp_all add: executeArbitrage_js_def obind_def Let_def)
    qed
  qed
qed

lemma checkEmergencyStop_iff:
  "fst (checkEmergencyStop b) \<longleftrightarrow>
     emergencyStopActive b \<or> totalLoss b > emergencyStop_maxLoss
       \<or> totalGasUsed_js b > emergencyStop_maxGasSpent"
  by (simp add: checkEmergencyStop_def)

lemma checkEmergencyStop_latch:
  "emergencyStopActive (snd (checkEmergencyStop b)) = fst (checkEmergencyStop b)"
  by (simp add: checkEmergencyStop_def)

lemma attempts_active:
  "emergencyStopActive b \<Longrightarrow> attempts b xs = b"
proof (induction xs arbitrary: b)
  case Nil
  then show ?case by simp
next
  case (Cons x xs)
  obtain name opp net where x: "x = (name, opp, net)" by (cases x) auto
  from Cons.prems have "executeArbitrage_js b name opp net = (Undefined, b)"
    by (simp add: executeArbitrage_js_def checkEmergencyStop_def)
  with Cons x show ?case by simp
qed

lemma attempts_quiet:
  "\<not> fst (checkEmergencyStop b) \<Longrightarrow>
     \<not> fst (checkEmergencyStop (attempts b xs)) \<and> totalLoss (attempts b xs) = totalLoss b
     \<and> totalGasUsed_js (attempts b xs) = totalGasUsed_js b"
proof (induction xs arbitrary: b)
  case Nil
  then show ?case by simp
next
  case (Cons x xs)
  obtain name opp net where x: "x = (name, opp, net)" by (cases x) auto
  define b' where "b' = snd (executeArbitrage_js b name opp net)"
  from executeArbitrage_js_stop[of b name opp net] Cons.prems
  have k: "\<not> emergencyStopActive b'" "totalLoss b' = totalLoss b"
    "totalGasUsed_js b' = totalGasUsed_js b"
    unfolding b'_def by (simp_all add: checkEmergencyStop_latch)
  with Cons.prems have "\<not> fst (checkEmergencyStop b')"
    by (simp add: checkEmergencyStop_iff)
  from Cons.IH[OF this] k x show ?case by (simp add: b'_def)
qed

text \<open>
  From the start of a run the emergency stop never refuses, whatever the attempts and
  their outcomes: the totals it compares with the ceilings stay at 0.
\<close>

lemma gate_never_refuses:
  "\<not> fst (checkEmergencyStop (attempts bot0 xs)) \<and> totalLoss (attempts bot0 xs) = 0
   \<and> totalGasUsed_js (attempts bot0 xs) = 0"
proof -
  have "\<not> fst (checkEmergencyStop bot0)"
    by (simp add: checkEmergencyStop_def bot0_def emergencyStop_maxLoss_def
          emergencyStop_maxGasSpent_def)
  from attempts_quiet[OF this, of xs] show ?thesis by (simp add: bot0_def)
qed

text \<open>
  C6, the failing input. The script configures an emergency stop (\<^verbatim>\<open>maxLoss: 100\<close>,
  ``Stop after $100 in losses''; \<^verbatim>\<open>cooldownPeriod: 300\<close>, ``5 minute cooldown after
  losses'') and means to add the gas cost of every failed trade to \<^verbatim>\<open>totalLoss\<close>
  (``Convert gas cost to USD''). From the start of a run, three consecutive failed
  settlements, each recorded as a failed trade and each costing 0.054 ETH of gas (118.80
  dollars at the script's rate of 2200), leave \<^verbatim>\<open>totalLoss\<close> and \<^verbatim>\<open>totalGasUsed\<close> at 0
  and the stop unset: the check does not refuse, and the fourth attempt is not skipped (a
  skipped attempt returns \<^verbatim>\<open>undefined\<close>), it goes through to the submission of the
  bundle. The same holds after three attempts whose simulation reverted.
\<close>

theorem C6_breaker_never_trips:
  "obind (js_mul (arb_gasPrice opp_costly) (BigInt (estimatedGasUsed ''WETH/DAI''))) formatEther
     = Some (54 / 1000)
   \<and> 3 * (54 / 1000 * 2200) > emergencyStop_maxLoss
   \<and> es_failedTrades (executionStats
       (attempts bot0 [failed_attempt, failed_attempt, failed_attempt])) = 3
   \<and> totalLoss (attempts bot0 [failed_attempt, failed_attempt, failed_attempt]) = 0
   \<and> totalGasUsed_js (attempts bot0 [failed_attempt, failed_attempt, failed_attempt]) = 0
   \<and> \<not> emergencyStopActive (attempts bot0 [failed_attempt, failed_attempt, failed_attempt])
   \<and> \<not> fst (checkEmergencyStop (attempts bot0 [failed_attempt, failed_attempt, failed_attempt]))
   \<and> fst (executeArbitrage_js (attempts bot0 [failed_attempt, failed_attempt, failed_attempt])
          ''WETH/DAI'' opp_costly (Submitted True)) = Returned False
   \<and> \<not> fst (checkEmergencyStop (attempts bot0 [reverted_attempt, reverted_attempt, reverted_attempt]))
   \<and> fst (executeArbitrage_js (attempts bot0 [reverted_attempt, reverted_attempt, reverted_attempt])
          ''WETH/DAI'' opp_costly (Submitted True)) = Returned False"
  by (simp add: failed_attempt_def reverted_attempt_def executeArbitrage_js_def
        checkEmergencyStop_def bot0_def opp_costly_def
        opp0_def emergencyStop_maxLoss_def emergencyStop_maxGasSpent_def maxPositionSize_def
        minLiquidity_def estimatedGasUsed_def updateExecutionStats_def obind_def)

subsection \<open>The cumulative counters\<close>

text \<open>The functions that run no settlement leave the profit total as it is.\<close>

lemma reflp_same_profit: "reflp same_profit"
  by (simp add: reflp_def same_profit_def)

lemma transp_same_profit: "transp same_profit"
  by (auto simp: transp_def same_profit_def)

lemmas same_profit_rules = reflp_same_profit transp_same_profit

lemma same_profit_dispatch: "\<not> settles t \<Longrightarrow> keeps same_profit (dispatch env c ctx sender t)"
proof (cases t)
  case (EmergencyWithdraw token to)
  show ?thesis
    unfolding EmergencyWithdraw dispatch.simps emergencyWithdraw_def onlyOwner_def nonReentrant_def
    by (intro keeps_intros same_profit_rules allI keeps_modify) (simp_all add: same_profit_def)
qed (auto simp: setMaxFlashLoanAmount_def setMinProfitBps_def setMaxPriceDeviation_def
       setMaxSlippage_def setIntermediateToken_def transferOwnership_def renounceOwnership_def
       same_profit_def onlyOwner_def
     intro!: keeps_intros same_profit_rules keeps_modify)

text \<open>What the steps of a settlement do to the storage.\<close>

lemma extcall_store: "extcall f w = (r, w') \<Longrightarrow> store w' = store w"
  by (auto simp: extcall_def split: sum.splits)

lemma setupFlashLoan_store: "setupFlashLoan env c asset amount w = (r, w') \<Longrightarrow> store w' = store w"
  by (auto simp: setupFlashLoan_def exec_simps split: sum.splits)

lemma checkPriceDeviation_Inr:
  assumes "checkPriceDeviation env c asset amount w = (Inr amountsOut, w')"
  shows "\<exists>price. getAmountsOut env (ext w) (10 ^ 18) [asset, WETH c] = Inr amountsOut
     \<and> index amountsOut 1 = Inr price
     \<and> w' = w\<lparr>store := (store w)\<lparr>lastKnownPrice := (lastKnownPrice (store w))(asset := price)\<rparr>\<rparr>"
  using assms
  by (auto simp: checkPriceDeviation_def exec_simps thn_lift split: sum.splits if_splits)

lemma calculateEstimatedProfit_same:
  "calculateEstimatedProfit env asset amount amountsOut w = (r, w') \<Longrightarrow> w' = w"
  by (auto simp: calculateEstimatedProfit_def exec_simps thn_lift split: sum.splits if_splits)

lemma bookkeeping_profit:
  assumes "thn (gets successfulTrades) (\<lambda>n.
      thn (lift (checked_add n 1)) (\<lambda>n1.
      thn (modify (\<lambda>s. s\<lparr>successfulTrades := n1\<rparr>)) (\<lambda>_.
      thn (gets totalGasUsed) (\<lambda>g.
      thn (lift (checked_add g (gasUsed ctx))) (\<lambda>g1.
      thn (modify (\<lambda>s. s\<lparr>totalGasUsed := g1\<rparr>)) (\<lambda>_.
      thn (view (\<lambda>e. balanceOf env e asset (this c))) (\<lambda>balance.
      thn (lift (calculateSlippage amount balance)) (\<lambda>_.
      thn (calculatePriceImpact env c asset amount) (\<lambda>_.
      ret ()))))))))) w = (r, w')"
  shows "totalProfitGenerated (store w') = totalProfitGenerated (store w)"
  using assms
  by (auto simp: exec_simps thn_lift calculatePriceImpact_def getCurrentPrice_def
        split: sum.splits if_splits)


lemma executeOperation_profit:
  assumes "executeOperation env c ctx sender asset amount premium initiator w = (Inr ok, w')"
  shows "\<exists>w1. executeArbitrage env c ctx (this c) asset amount (amount + premium) w = (Inr True, w1)
           \<and> totalProfitGenerated (store w') = totalProfitGenerated (store w1)"
proof -
  from assms have s: "sender = lendingPool c" and i: "initiator = this c"
    by (auto simp: executeOperation_def throw_app split: if_splits)
  from assms s i obtain amountOwed where
    o: "checked_add amount premium = Inr amountOwed"
    by (auto simp: executeOperation_def thn_lift split: sum.splits)
  then have owed: "amountOwed = amount + premium"
    by (auto simp: checked_add_def split: if_splits)
  from assms s i o have run: "thn (try_catch (executeArbitrage env c ctx (this c) asset amount amountOwed)
             (\<lambda>reason.
                thn (gets failedTrades) (\<lambda>n.
                thn (lift (checked_add n 1)) (\<lambda>n1.
                thn (modify (\<lambda>s. s\<lparr>failedTrades := n1\<rparr>)) (\<lambda>_.
                throw (Reason reason)))))) (\<lambda>success.
      thn (if success then
             thn (gets successfulTrades) (\<lambda>n.
             thn (lift (checked_add n 1)) (\<lambda>n1.
             thn (modify (\<lambda>s. s\<lparr>successfulTrades := n1\<rparr>)) (\<lambda>_.
             thn (gets totalGasUsed) (\<lambda>g.
             thn (lift (checked_add g (gasUsed ctx))) (\<lambda>g1.
             thn (modify (\<lambda>s. s\<lparr>totalGasUsed := g1\<rparr>)) (\<lambda>_.
             thn (view (\<lambda>e. balanceOf env e asset (this c))) (\<lambda>balance.
             thn (lift (calculateSlippage amount balance)) (\<lambda>_.
             thn (calculatePriceImpact env c asset amount) (\<lambda>_.
             ret ())))))))))
           else ret ()) (\<lambda>_.
      ret success)) w = (Inr ok, w')"
    by (simp add: executeOperation_def thn_lift_Inr)
  show ?thesis
  proof (cases "executeArbitrage env c ctx (this c) asset amount amountOwed w")
    case (Pair r w1)
    show ?thesis
    proof (cases r)
      case (Inl e)
      with Pair run have False
        by (auto simp: thn_try thn_Inr_iff throw_app)
      then show ?thesis ..
    next
      case (Inr success)
      with Pair have ea: "executeArbitrage env c ctx (this c) asset amount amountOwed w
          = (Inr success, w1)" by simp
      from executeArbitrage_success[OF ea] have t: success by blast
      from run Pair Inr t obtain u where
        bk: "thn (gets successfulTrades) (\<lambda>n.
             thn (lift (checked_add n 1)) (\<lambda>n1.
             thn (modify (\<lambda>s. s\<lparr>successfulTrades := n1\<rparr>)) (\<lambda>_.
             thn (gets totalGasUsed) (\<lambda>g.
             thn (lift (checked_add g (gasUsed ctx))) (\<lambda>g1.
             thn (modify (\<lambda>s. s\<lparr>totalGasUsed := g1\<rparr>)) (\<lambda>_.
             thn (view (\<lambda>e. balanceOf env e asset (this c))) (\<lambda>balance.
             thn (lift (calculateSlippage amount balance)) (\<lambda>_.
             thn (calculatePriceImpact env c asset amount) (\<lambda>_.
             ret ()))))))))) w1 = (Inr u, w')"
        by (auto simp: thn_try thn_Inr_iff ret_app)
      from bookkeeping_profit[OF bk] ea t owed show ?thesis by auto
    qed
  qed
qed

lemma initiateFlashLoan_body_chain:
  assumes "initiateFlashLoan_body env c ctx asset amount w = (Inr u, w')"
  shows "\<exists>amountsOut price w2.
      getAmountsOut env (ext w) (10 ^ 18) [asset, WETH c] = Inr amountsOut
    \<and> index amountsOut 1 = Inr price
    \<and> setupFlashLoan env c asset amount
         (w\<lparr>store := (store w)\<lparr>lastExecutionTime := number ctx,
               lastKnownPrice := (lastKnownPrice (store w))(asset := price)\<rparr>\<rparr>) = (Inr (), w2)
    \<and> flashLoanSimple env (executeOperation env c ctx (lendingPool c)) (this c) (this c)
         asset amount w2 = (Inr u, w')"
proof -
  from assms obtain amountsOut wa est wb w2 where
    1: "checkPriceDeviation env c asset amount
          (w\<lparr>store := (store w)\<lparr>lastExecutionTime := number ctx\<rparr>\<rparr>) = (Inr amountsOut, wa)"
    and 2: "calculateEstimatedProfit env asset amount amountsOut wa = (Inr est, wb)"
    and 3: "setupFlashLoan env c asset amount wb = (Inr (), w2)"
    and 4: "flashLoanSimple env (executeOperation env c ctx (lendingPool c)) (this c) (this c)
         asset amount w2 = (Inr u, w')"
    by (auto simp: initiateFlashLoan_body_def thn_gets throw_app thn_lift thn_modify thn_Inr_iff
          split: if_splits sum.splits)
  from checkPriceDeviation_Inr[OF 1] obtain price where
    a: "getAmountsOut env (ext w) (10 ^ 18) [asset, WETH c] = Inr amountsOut"
    and b: "index amountsOut 1 = Inr price"
    and wa: "wa = w\<lparr>store := (store w)\<lparr>lastExecutionTime := number ctx,
               lastKnownPrice := (lastKnownPrice (store w))(asset := price)\<rparr>\<rparr>"
    by auto
  from calculateEstimatedProfit_same[OF 2] have "wb = wa" .
  with 3 4 a b wa show ?thesis by blast
qed


text \<open>
  A settlement that commits has added the profit of its two legs to the profit total,
  modulo \<open>2 ^ 256\<close>; the worlds the legs run in are those the entry point has prepared.
\<close>

lemma initiateFlashLoan_profit:
  assumes "transact env c ctx sender (InitiateFlashLoan asset amount) w = (Inr u, w')"
  shows "\<exists>amountsOut price w1 premium w2 ia w3 fa w4.
      getAmountsOut env (ext w) (10 ^ 18) [asset, WETH c] = Inr amountsOut
    \<and> index amountsOut 1 = Inr price
    \<and> setupFlashLoan env c asset amount
         (w\<lparr>store := (store w)\<lparr>entered := True, lastExecutionTime := number ctx,
               lastKnownPrice := (lastKnownPrice (store w))(asset := price)\<rparr>\<rparr>) = (Inr (), w1)
    \<and> extcall (lend env (this c) asset amount) w1 = (Inr premium, w2)
    \<and> executeFirstTrade env c ctx asset amount w2 = (Inr ia, w3)
    \<and> executeSecondTrade env c ctx asset ia (amount + premium) w3 = (Inr fa, w4)
    \<and> amount + premium \<le> fa
    \<and> totalProfitGenerated (store w')
         = (totalProfitGenerated (store w) + (fa - (amount + premium))) mod 2 ^ 256"
proof -
  from assms have "dispatch env c ctx sender (InitiateFlashLoan asset amount) w = (Inr u, w')"
    unfolding transact_def by (rule call_Inr)
  then have "nonReentrant (whenNotPaused (initiateFlashLoan_body env c ctx asset amount)) w
      = (Inr u, w')"
    by (simp add: initiateFlashLoan_def)
  from nonReentrant_Inr[OF this] obtain wz where
    b0: "whenNotPaused (initiateFlashLoan_body env c ctx asset amount)
          (w\<lparr>store := (store w)\<lparr>entered := True\<rparr>\<rparr>) = (Inr u, wz)"
    and w': "w' = wz\<lparr>store := (store wz)\<lparr>entered := False\<rparr>\<rparr>"
    by blast
  from initiateFlashLoan_body_chain[OF whenNotPaused_Inr[OF b0]]
  obtain amountsOut price w1 where
    q: "getAmountsOut env (ext w) (10 ^ 18) [asset, WETH c] = Inr amountsOut"
    and p: "index amountsOut 1 = Inr price"
    and 1: "setupFlashLoan env c asset amount
         (w\<lparr>store := (store w)\<lparr>entered := True, lastExecutionTime := number ctx,
               lastKnownPrice := (lastKnownPrice (store w))(asset := price)\<rparr>\<rparr>) = (Inr (), w1)"
    and f: "flashLoanSimple env (executeOperation env c ctx (lendingPool c)) (this c) (this c)
         asset amount w1 = (Inr u, wz)"
    by auto
  from flashLoanSimple_Inr[OF f] obtain premium w2 w5 where
    2: "extcall (lend env (this c) asset amount) w1 = (Inr premium, w2)"
    and cb: "executeOperation env c ctx (lendingPool c) asset amount premium (this c) w2
         = (Inr True, w5)"
    and 6: "extcall (collect env (this c) asset amount premium) w5 = (Inr u, wz)"
    by blast
  from executeOperation_profit[OF cb] obtain wa where
    ea: "executeArbitrage env c ctx (this c) asset amount (amount + premium) w2 = (Inr True, wa)"
    and 5: "totalProfitGenerated (store w5) = totalProfitGenerated (store wa)"
    by blast
  from executeArbitrage_success[OF ea] obtain ia w3 fa w4 where
    3: "executeFirstTrade env c ctx asset amount w2 = (Inr ia, w3)"
    and 4: "executeSecondTrade env c ctx asset ia (amount + premium) w3 = (Inr fa, w4)"
    and le: "amount + premium \<le> fa"
    and wa: "wa = w4\<lparr>store := (store w4)\<lparr>totalProfitGenerated :=
             (totalProfitGenerated (store w4) + (fa - (amount + premium))) mod 2 ^ 256\<rparr>\<rparr>"
    by blast
  have "store w4 = store w2"
    using executeFirstTrade_store[OF 3] executeSecondTrade_store[OF 4] by simp
  moreover have "store w2 = store w1" using extcall_store[OF 2] .
  moreover have "store w1 = (store w)\<lparr>entered := True, lastExecutionTime := number ctx,
               lastKnownPrice := (lastKnownPrice (store w))(asset := price)\<rparr>"
    using setupFlashLoan_store[OF 1] by simp
  ultimately have "totalProfitGenerated (store w4) = totalProfitGenerated (store w)" by simp
  with wa have "totalProfitGenerated (store wa)
      = (totalProfitGenerated (store w) + (fa - (amount + premium))) mod 2 ^ 256" by simp
  moreover have "totalProfitGenerated (store w') = totalProfitGenerated (store w5)"
    using w' extcall_store[OF 6] by simp
  ultimately have t: "totalProfitGenerated (store w')
         = (totalProfitGenerated (store w) + (fa - (amount + premium))) mod 2 ^ 256"
    using 5 by simp
  show ?thesis
    apply (rule exI[of _ amountsOut], rule exI[of _ price], rule exI[of _ w1])
    apply (rule exI[of _ premium], rule exI[of _ w2], rule exI[of _ ia], rule exI[of _ w3])
    apply (rule exI[of _ fa], rule exI[of _ w4])
    using q p 1 2 3 4 le t by simp
qed

text \<open>The callbacks called directly, by the lender or by the contract itself.\<close>

lemma callbacks_profit:
  assumes "transact env c ctx sender t w = (Inr u, w')"
    and "t = ExecuteOperation asset amount premium initiator \<and> amountOwed = amount + premium
         \<or> t = ExecuteArbitrage asset amount amountOwed"
  shows "\<exists>ia w1 fa w2.
      executeFirstTrade env c ctx asset amount w = (Inr ia, w1)
    \<and> executeSecondTrade env c ctx asset ia amountOwed w1 = (Inr fa, w2)
    \<and> amountOwed \<le> fa
    \<and> totalProfitGenerated (store w')
         = (totalProfitGenerated (store w) + (fa - amountOwed)) mod 2 ^ 256"
proof -
  from assms(1) have d: "dispatch env c ctx sender t w = (Inr u, w')"
    unfolding transact_def by (rule call_Inr)
  have "\<exists>ok wa. executeArbitrage env c ctx (this c) asset amount amountOwed w = (Inr ok, wa)
      \<and> totalProfitGenerated (store w') = totalProfitGenerated (store wa)"
  proof (cases "t = ExecuteArbitrage asset amount amountOwed")
    case True
    with d obtain ok where e: "executeArbitrage env c ctx sender asset amount amountOwed w = (Inr ok, w')"
      by (auto simp: discard_def thn_Inr_iff ret_app)
    then have "sender = this c"
      by (auto simp: executeArbitrage_def throw_app split: if_splits)
    with e show ?thesis by blast
  next
    case False
    with assms(2) have t: "t = ExecuteOperation asset amount premium initiator"
      and o: "amountOwed = amount + premium" by simp_all
    from d t obtain ok where
      "executeOperation env c ctx sender asset amount premium initiator w = (Inr ok, w')"
      by (auto simp: discard_def thn_Inr_iff ret_app)
    from executeOperation_profit[OF this] o show ?thesis by blast
  qed
  then obtain ok wa where
    ea: "executeArbitrage env c ctx (this c) asset amount amountOwed w = (Inr ok, wa)"
    and k: "totalProfitGenerated (store w') = totalProfitGenerated (store wa)" by blast
  from executeArbitrage_success[OF ea] obtain ia w1 fa w2 where
    1: "executeFirstTrade env c ctx asset amount w = (Inr ia, w1)"
    and 2: "executeSecondTrade env c ctx asset ia amountOwed w1 = (Inr fa, w2)"
    and le: "amountOwed \<le> fa"
    and wa: "wa = w2\<lparr>store := (store w2)\<lparr>totalProfitGenerated :=
             (totalProfitGenerated (store w2) + (fa - amountOwed)) mod 2 ^ 256\<rparr>\<rparr>"
    by blast
  have "store w2 = store w"
    using executeFirstTrade_store[OF 1] executeSecondTrade_store[OF 2] by simp
  with wa k have "totalProfitGenerated (store w')
         = (totalProfitGenerated (store w) + (fa - amountOwed)) mod 2 ^ 256" by simp
  with 1 2 le show ?thesis by blast
qed

lemma other_transactions_profit:
  assumes "transact env c ctx sender t w = (r, w')" and "\<not> settles t \<or> (\<exists>e. r = Inl e)"
  shows "totalProfitGenerated (store w') = totalProfitGenerated (store w)"
proof (cases r)
  case (Inl e)
  with assms(1) have "w' = w" unfolding transact_def by (auto dest: call_Inl)
  then show ?thesis by simp
next
  case (Inr a)
  with assms(2) have n: "\<not> settles t" by simp
  from assms(1) Inr have "dispatch env c ctx sender t w = (Inr a, w')"
    unfolding transact_def by (auto dest: call_Inr)
  with same_profit_dispatch[OF n, of env c ctx sender] show ?thesis
    by (auto simp: keeps_def same_profit_def)
qed


lemma unchecked_add_mono:
  fixes a p :: nat
  shows "a + p < 2 ^ 256 \<longrightarrow> a \<le> (a + p) mod 2 ^ 256"
  by simp

text \<open>
  C9, as the code has it. No transaction lowers the contract's \<^verbatim>\<open>totalGasUsed\<close> (its
  addition is checked). \<^verbatim>\<open>totalProfitGenerated\<close> is left as it is by every transaction
  that reverts and by every function other than the settlement and its two callbacks; a
  settlement that commits adds the profit of its two legs, \<open>fa - amountOwed\<close>, modulo
  \<open>2 ^ 256\<close> (the addition is unchecked), so the total does not fall as long as the sum
  stays below \<open>2 ^ 256\<close>. No trade attempt of the orchestrator lowers its \<^verbatim>\<open>totalLoss\<close>
  or its \<^verbatim>\<open>totalGasUsed\<close>.
\<close>

theorem C9_counters:
  fixes env :: "'e env"
  shows "(\<forall>t r w'. transact env c ctx sender t w = (r, w')
            \<longrightarrow> totalGasUsed (store w) \<le> totalGasUsed (store w'))
   \<and> (\<forall>t r w'. transact env c ctx sender t w = (r, w') \<and> (\<not> settles t \<or> (\<exists>e. r = Inl e))
            \<longrightarrow> totalProfitGenerated (store w') = totalProfitGenerated (store w))
   \<and> (\<forall>asset amount u w'.
        transact env c ctx sender (InitiateFlashLoan asset amount) w = (Inr u, w') \<longrightarrow>
        (\<exists>amountsOut price w1 premium w2 ia w3 fa w4.
            getAmountsOut env (ext w) (10 ^ 18) [asset, WETH c] = Inr amountsOut
          \<and> index amountsOut 1 = Inr price
          \<and> setupFlashLoan env c asset amount
               (w\<lparr>store := (store w)\<lparr>entered := True, lastExecutionTime := number ctx,
                     lastKnownPrice := (lastKnownPrice (store w))(asset := price)\<rparr>\<rparr>)
              = (Inr (), w1)
          \<and> extcall (lend env (this c) asset amount) w1 = (Inr premium, w2)
          \<and> executeFirstTrade env c ctx asset amount w2 = (Inr ia, w3)
          \<and> executeSecondTrade env c ctx asset ia (amount + premium) w3 = (Inr fa, w4)
          \<and> amount + premium \<le> fa
          \<and> totalProfitGenerated (store w')
               = (totalProfitGenerated (store w) + (fa - (amount + premium))) mod 2 ^ 256
          \<and> (totalProfitGenerated (store w) + (fa - (amount + premium)) < 2 ^ 256
               \<longrightarrow> totalProfitGenerated (store w) \<le> totalProfitGenerated (store w'))))
   \<and> (\<forall>t asset amount premium initiator amountOwed u w'.
        transact env c ctx sender t w = (Inr u, w')
        \<and> (t = ExecuteOperation asset amount premium initiator \<and> amountOwed = amount + premium
             \<or> t = ExecuteArbitrage asset amount amountOwed) \<longrightarrow>
        (\<exists>ia w1 fa w2.
            executeFirstTrade env c ctx asset amount w = (Inr ia, w1)
          \<and> executeSecondTrade env c ctx asset ia amountOwed w1 = (Inr fa, w2)
          \<and> amountOwed \<le> fa
          \<and> totalProfitGenerated (store w')
               = (totalProfitGenerated (store w) + (fa - amountOwed)) mod 2 ^ 256
          \<and> (totalProfitGenerated (store w) + (fa - amountOwed) < 2 ^ 256
               \<longrightarrow> totalProfitGenerated (store w) \<le> totalProfitGenerated (store w'))))
   \<and> totalLoss b \<le> totalLoss (snd (executeArbitrage_js b name opp net))
   \<and> totalGasUsed_js b \<le> totalGasUsed_js (snd (executeArbitrage_js b name opp net))"
proof (intro conjI allI impI)
  fix t r w'
  assume "transact env c ctx sender t w = (r, w')"
  from steady_transact[OF this] show "totalGasUsed (store w) \<le> totalGasUsed (store w')"
    by (simp add: steady_def)
next
  fix t r w'
  assume "transact env c ctx sender t w = (r, w') \<and> (\<not> settles t \<or> (\<exists>e. r = Inl e))"
  then show "totalProfitGenerated (store w') = totalProfitGenerated (store w)"
    using other_transactions_profit by blast
next
  fix asset amount u w'
  assume "transact env c ctx sender (InitiateFlashLoan asset amount) w = (Inr u, w')"
  from initiateFlashLoan_profit[OF this] obtain amountsOut price w1 premium w2 ia w3 fa w4 where
    k: "getAmountsOut env (ext w) (10 ^ 18) [asset, WETH c] = Inr amountsOut
    \<and> index amountsOut 1 = Inr price
    \<and> setupFlashLoan env c asset amount
         (w\<lparr>store := (store w)\<lparr>entered := True, lastExecutionTime := number ctx,
               lastKnownPrice := (lastKnownPrice (store w))(asset := price)\<rparr>\<rparr>) = (Inr (), w1)
    \<and> extcall (lend env (this c) asset amount) w1 = (Inr premium, w2)
    \<and> executeFirstTrade env c ctx asset amount w2 = (Inr ia, w3)
    \<and> executeSecondTrade env c ctx asset ia (amount + premium) w3 = (Inr fa, w4)
    \<and> amount + premium \<le> fa
    \<and> totalProfitGenerated (store w')
         = (totalProfitGenerated (store w) + (fa - (amount + premium))) mod 2 ^ 256"
    by blast
  then have "totalProfitGenerated (store w')
         = (totalProfitGenerated (store w) + (fa - (amount + premium))) mod 2 ^ 256" by blast
  then have "totalProfitGenerated (store w) + (fa - (amount + premium)) < 2 ^ 256
               \<longrightarrow> totalProfitGenerated (store w) \<le> totalProfitGenerated (store w')"
    using unchecked_add_mono[of "totalProfitGenerated (store w)" "fa - (amount + premium)"]
    by (simp only:)
  with k show "\<exists>amountsOut price w1 premium w2 ia w3 fa w4.
            getAmountsOut env (ext w) (10 ^ 18) [asset, WETH c] = Inr amountsOut
          \<and> index amountsOut 1 = Inr price
          \<and> setupFlashLoan env c asset amount
               (w\<lparr>store := (store w)\<lparr>entered := True, lastExecutionTime := number ctx,
                     lastKnownPrice := (lastKnownPrice (store w))(asset := price)\<rparr>\<rparr>)
              = (Inr (), w1)
          \<and> extcall (lend env (this c) asset amount) w1 = (Inr premium, w2)
          \<and> executeFirstTrade env c ctx asset amount w2 = (Inr ia, w3)
          \<and> executeSecondTrade env c ctx asset ia (amount + premium) w3 = (Inr fa, w4)
          \<and> amount + premium \<le> fa
          \<and> totalProfitGenerated (store w')
               = (totalProfitGenerated (store w) + (fa - (amount + premium))) mod 2 ^ 256
          \<and> (totalProfitGenerated (store w) + (fa - (amount + premium)) < 2 ^ 256
               \<longrightarrow> totalProfitGenerated (store w) \<le> totalProfitGenerated (store w'))"
    by blast
next
  fix t asset amount premium initiator amountOwed u w'
  assume h: "transact env c ctx sender t w = (Inr u, w')
        \<and> (t = ExecuteOperation asset amount premium initiator \<and> amountOwed = amount + premium
             \<or> t = ExecuteArbitrage asset amount amountOwed)"
  then have 1: "transact env c ctx sender t w = (Inr u, w')"
    and 2: "t = ExecuteOperation asset amount premium initiator \<and> amountOwed = amount + premium
             \<or> t = ExecuteArbitrage asset amount amountOwed" by simp_all
  from callbacks_profit[OF 1 2] obtain ia w1 fa w2 where
    k: "executeFirstTrade env c ctx asset amount w = (Inr ia, w1)
    \<and> executeSecondTrade env c ctx asset ia amountOwed w1 = (Inr fa, w2)
    \<and> amountOwed \<le> fa
    \<and> totalProfitGenerated (store w')
         = (totalProfitGenerated (store w) + (fa - amountOwed)) mod 2 ^ 256"
    by blast
  then have "totalProfitGenerated (store w')
         = (totalProfitGenerated (store w) + (fa - amountOwed)) mod 2 ^ 256" by blast
  then have "totalProfitGenerated (store w) + (fa - amountOwed) < 2 ^ 256
               \<longrightarrow> totalProfitGenerated (store w) \<le> totalProfitGenerated (store w')"
    using unchecked_add_mono[of "totalProfitGenerated (store w)" "fa - amountOwed"]
    by (simp only:)
  with k show "\<exists>ia w1 fa w2.
            executeFirstTrade env c ctx asset amount w = (Inr ia, w1)
          \<and> executeSecondTrade env c ctx asset ia amountOwed w1 = (Inr fa, w2)
          \<and> amountOwed \<le> fa
          \<and> totalProfitGenerated (store w')
               = (totalProfitGenerated (store w) + (fa - amountOwed)) mod 2 ^ 256
          \<and> (totalProfitGenerated (store w) + (fa - amountOwed) < 2 ^ 256
               \<longrightarrow> totalProfitGenerated (store w) \<le> totalProfitGenerated (store w'))"
    by blast
next
  show "totalLoss b \<le> totalLoss (snd (executeArbitrage_js b name opp net))"
    using executeArbitrage_js_stop[of b name opp net] by simp
  show "totalGasUsed_js b \<le> totalGasUsed_js (snd (executeArbitrage_js b name opp net))"
    using executeArbitrage_js_stop[of b name opp net] by simp
qed


text \<open>
  One settlement from the example deployment: the gas total goes from 0 to 150000 and
  the profit total from 0 to 20, the profit of its legs; a change of configuration by
  the owner leaves the profit total at 0; a call of the inner callback by the contract
  itself adds the profit of its legs; a bundle that is not included leaves the
  orchestrator's totals at 0.
\<close>

theorem C9_counters_witness:
  "totalGasUsed (store world0) = 0
   \<and> totalGasUsed (store (snd (transact env0 c0 ctx0 666 (InitiateFlashLoan 1 100) world0))) = 150000
   \<and> totalProfitGenerated (store world0) = 0
   \<and> totalProfitGenerated
        (store (snd (transact env0 c0 ctx0 666 (InitiateFlashLoan 1 100) world0))) = 20
   \<and> (\<exists>premium w2 ia w3 fa w4.
          executeFirstTrade env0 c0 ctx0 1 100 w2 = (Inr ia, w3)
        \<and> executeSecondTrade env0 c0 ctx0 1 ia (100 + premium) w3 = (Inr fa, w4)
        \<and> totalProfitGenerated
             (store (snd (transact env0 c0 ctx0 666 (InitiateFlashLoan 1 100) world0)))
            = (totalProfitGenerated (store world0) + (fa - (100 + premium))) mod 2 ^ 256)
   \<and> totalProfitGenerated
        (store (snd (transact env0 c0 ctx0 100 (SetMaxSlippage 200) world0))) = 0
   \<and> (\<exists>ia w1 fa w2.
          executeFirstTrade env0 c0 ctx0 1 100 \<lparr>store = store0, ext = funded 100\<rparr> = (Inr ia, w1)
        \<and> executeSecondTrade env0 c0 ctx0 1 ia 100 w1 = (Inr fa, w2)
        \<and> totalProfitGenerated
             (store (snd (transact env0 c0 ctx0 10 (ExecuteArbitrage 1 100 100)
                \<lparr>store = store0, ext = funded 100\<rparr>)))
            = (0 + (fa - 100)) mod 2 ^ 256)
   \<and> totalLoss (snd (executeArbitrage_js bot0 ''WETH/DAI'' opp0 (Submitted False))) = 0
   \<and> totalGasUsed_js (snd (executeArbitrage_js bot0 ''WETH/DAI'' opp0 (Submitted False))) = 0"
proof -
  define w where "w = snd (transact env0 c0 ctx0 666 (InitiateFlashLoan 1 100) world0)"
  have f: "fst (transact env0 c0 ctx0 666 (InitiateFlashLoan 1 100) world0) = Inr ()"
    by (simp add: transact_def call_def exec_simps arith_defs fun_defs bench_defs)
  then have e: "transact env0 c0 ctx0 666 (InitiateFlashLoan 1 100) world0 = (Inr (), w)"
    unfolding w_def by (metis prod.collapse)
  note t = C9_counters[of env0 c0 ctx0 666 world0 bot0 "''WETH/DAI''" opp0 "Submitted False"]
  from t e have "totalGasUsed (store world0) \<le> totalGasUsed (store w)" by blast
  have g: "totalGasUsed (store w) = 150000 \<and> totalProfitGenerated (store w) = 20" unfolding w_def
    by (simp add: transact_def call_def exec_simps arith_defs fun_defs bench_defs)
  have z: "totalGasUsed (store world0) = 0 \<and> totalProfitGenerated (store world0) = 0"
    by (simp add: world0_def store0_def)
  from t[THEN conjunct2, THEN conjunct2, THEN conjunct1, rule_format, OF e]
  have p: "\<exists>premium w2 ia w3 fa w4.
          executeFirstTrade env0 c0 ctx0 1 100 w2 = (Inr ia, w3)
        \<and> executeSecondTrade env0 c0 ctx0 1 ia (100 + premium) w3 = (Inr fa, w4)
        \<and> totalProfitGenerated (store w)
            = (totalProfitGenerated (store world0) + (fa - (100 + premium))) mod 2 ^ 256"
    by blast
  define v where "v = snd (transact env0 c0 ctx0 100 (SetMaxSlippage 200) world0)"
  have "transact env0 c0 ctx0 100 (SetMaxSlippage 200) world0
      = (fst (transact env0 c0 ctx0 100 (SetMaxSlippage 200) world0), v)
    \<and> (\<not> settles (SetMaxSlippage 200)
         \<or> (\<exists>e. fst (transact env0 c0 ctx0 100 (SetMaxSlippage 200) world0) = Inl e))"
    by (simp add: v_def)
  from C9_counters[of env0 c0 ctx0 100 world0 bot0 "''WETH/DAI''" opp0 "Submitted False",
      THEN conjunct2, THEN conjunct1, rule_format, OF this] z
  have s: "totalProfitGenerated (store v) = 0" by simp
  define u where "u = snd (transact env0 c0 ctx0 10 (ExecuteArbitrage 1 100 100)
                \<lparr>store = store0, ext = funded 100\<rparr>)"
  have "fst (transact env0 c0 ctx0 10 (ExecuteArbitrage 1 100 100)
                \<lparr>store = store0, ext = funded 100\<rparr>) = Inr ()"
    by (simp add: transact_def call_def discard_def exec_simps arith_defs fun_defs bench_defs)
  then have "transact env0 c0 ctx0 10 (ExecuteArbitrage 1 100 100)
                \<lparr>store = store0, ext = funded 100\<rparr> = (Inr (), u)
      \<and> (ExecuteArbitrage 1 100 100 = ExecuteOperation 1 100 0 0 \<and> (100::nat) = 100 + 0
           \<or> ExecuteArbitrage 1 100 100 = ExecuteArbitrage 1 100 100)"
    unfolding u_def by (metis prod.collapse)
  from C9_counters[of env0 c0 ctx0 10 "\<lparr>store = store0, ext = funded 100\<rparr>" bot0 "''WETH/DAI''"
      opp0 "Submitted False",
      THEN conjunct2, THEN conjunct2, THEN conjunct2, THEN conjunct1, rule_format, OF this]
  have c: "\<exists>ia w1 fa w2.
          executeFirstTrade env0 c0 ctx0 1 100 \<lparr>store = store0, ext = funded 100\<rparr> = (Inr ia, w1)
        \<and> executeSecondTrade env0 c0 ctx0 1 ia 100 w1 = (Inr fa, w2)
        \<and> totalProfitGenerated (store u) = (0 + (fa - 100)) mod 2 ^ 256"
    by (auto simp: store0_def)
  from t have "totalLoss bot0
       \<le> totalLoss (snd (executeArbitrage_js bot0 ''WETH/DAI'' opp0 (Submitted False)))
     \<and> totalGasUsed_js bot0
       \<le> totalGasUsed_js (snd (executeArbitrage_js bot0 ''WETH/DAI'' opp0 (Submitted False)))"
    by blast
  have j: "totalLoss (snd (executeArbitrage_js bot0 ''WETH/DAI'' opp0 (Submitted False))) = 0
     \<and> totalGasUsed_js (snd (executeArbitrage_js bot0 ''WETH/DAI'' opp0 (Submitted False))) = 0"
    by (simp add: executeArbitrage_js_def checkEmergencyStop_def bot0_def opp0_def
          emergencyStop_maxLoss_def emergencyStop_maxGasSpent_def maxPositionSize_def
          minLiquidity_def estimatedGasUsed_def updateExecutionStats_def obind_def)
  from z g p s c j show ?thesis unfolding w_def v_def u_def by blast
qed

text \<open>
  The settlements of \<open>2 ^ 195\<close> units, one after the other: each commits, and each state
  is reachable.
\<close>

lemmas big_defs = rate_big_def env_big_def ledger_big_def store_big_def ctx_big_def


lemma step_big:
  assumes "Suc n < 2 ^ 61"
  shows "\<exists>l. transact env_big c0 (ctx_big n) 666 (InitiateFlashLoan 1 (2 ^ 195))
      \<lparr>store = store_big n, ext = ledger_big\<rparr> = (Inr (), \<lparr>store = store_big (Suc n), ext = l\<rparr>)"
  using assms
  by (simp add: transact_def call_def exec_simps arith_defs fun_defs bench_defs big_defs)

lemma reachable_big:
  "n < 2 ^ 61 \<Longrightarrow> reachable env_big c0 \<lparr>store = store_big n, ext = ledger_big\<rparr>"
proof (induction n)
  case 0
  have "constructor 100 c0 (2 ^ 195) 100 = Inr ((store_big 0)\<lparr>intermediateToken := 0\<rparr>)"
    by (simp add: constructor_def c0_def store_big_def MAX_BPS_def)
  then have "reachable env_big c0 \<lparr>store = (store_big 0)\<lparr>intermediateToken := 0\<rparr>, ext = ledger_big\<rparr>"
    by (rule reachable.deployed)
  moreover have "transact env_big c0 ctx0 100 (SetIntermediateToken 2)
      \<lparr>store = (store_big 0)\<lparr>intermediateToken := 0\<rparr>, ext = ledger_big\<rparr>
        = (Inr (), \<lparr>store = store_big 0, ext = ledger_big\<rparr>)"
    by (simp add: transact_def call_def setIntermediateToken_def onlyOwner_def exec_simps
          store_big_def)
  ultimately show ?case by (rule reachable.transacted)
next
  case (Suc n)
  then have r: "reachable env_big c0 \<lparr>store = store_big n, ext = ledger_big\<rparr>" by simp
  from step_big[OF Suc.prems] obtain l where
    "transact env_big c0 (ctx_big n) 666 (InitiateFlashLoan 1 (2 ^ 195))
      \<lparr>store = store_big n, ext = ledger_big\<rparr> = (Inr (), \<lparr>store = store_big (Suc n), ext = l\<rparr>)"
    by blast
  with r have "reachable env_big c0 \<lparr>store = store_big (Suc n), ext = l\<rparr>"
    by (rule reachable.transacted)
  then have "reachable env_big c0 (\<lparr>store = store_big (Suc n), ext = l\<rparr>\<lparr>ext := ledger_big\<rparr>)"
    by (rule reachable.outside)
  then show ?case by simp
qed

text \<open>
  C9 as stated fails for \<^verbatim>\<open>totalProfitGenerated\<close>. The state after \<open>2 ^ 61 - 1\<close>
  settlements that earned \<open>2 ^ 195\<close> each is reachable, with a profit total of
  \<open>2 ^ 256 - 2 ^ 195\<close>; the next settlement commits and leaves the total at 0.
\<close>

theorem C9_profit_total_wraps_counterexample:
  "reachable env_big c0 \<lparr>store = store_big (2 ^ 61 - 1), ext = ledger_big\<rparr>
   \<and> totalProfitGenerated (store_big (2 ^ 61 - 1)) = 2 ^ 256 - 2 ^ 195
   \<and> fst (transact env_big c0 (ctx_big (2 ^ 61 - 1)) 666 (InitiateFlashLoan 1 (2 ^ 195))
        \<lparr>store = store_big (2 ^ 61 - 1), ext = ledger_big\<rparr>) = Inr ()
   \<and> totalProfitGenerated (store (snd
        (transact env_big c0 (ctx_big (2 ^ 61 - 1)) 666 (InitiateFlashLoan 1 (2 ^ 195))
           \<lparr>store = store_big (2 ^ 61 - 1), ext = ledger_big\<rparr>))) = 0"
proof -
  have "(2::nat) ^ 61 - 1 < 2 ^ 61" by simp
  then have 1: "reachable env_big c0 \<lparr>store = store_big (2 ^ 61 - 1), ext = ledger_big\<rparr>"
    by (rule reachable_big)
  have 2: "totalProfitGenerated (store_big (2 ^ 61 - 1)) = 2 ^ 256 - 2 ^ 195"
    by (simp add: store_big_def)
  have 3: "fst (transact env_big c0 (ctx_big (2 ^ 61 - 1)) 666 (InitiateFlashLoan 1 (2 ^ 195))
        \<lparr>store = store_big (2 ^ 61 - 1), ext = ledger_big\<rparr>) = Inr ()
     \<and> totalProfitGenerated (store (snd
        (transact env_big c0 (ctx_big (2 ^ 61 - 1)) 666 (InitiateFlashLoan 1 (2 ^ 195))
           \<lparr>store = store_big (2 ^ 61 - 1), ext = ledger_big\<rparr>))) = 0"
    by (simp add: transact_def call_def exec_simps arith_defs fun_defs bench_defs big_defs)
  from 1 2 3 show ?thesis by blast
qed

subsection \<open>The detectors\<close>



text \<open>
  The opportunity is never logged: the price impact is computed from a Number and a
  BigInt, which throws.
\<close>

lemma calculatePriceImpact_js_throws:
  "calculatePriceImpact_js amount reserve0 reserve1 decimals = None"
  by (simp add: calculatePriceImpact_js_def obind_def split: option.splits)

lemma checkArbitrageOpportunity_never_logs:
  "checkArbitrageOpportunity decimals gasCostUSD u s uPrev sPrev \<noteq> Logged d p"
  by (auto simp: checkArbitrageOpportunity_def Let_def calculatePriceImpact_js_throws
        split: if_splits option.splits)













lemma sqrt_hundredth: "sqrt (1 / 100) = 1 / 10"
  by (rule real_sqrt_unique) (simp_all add: power2_eq_square)


subsection \<open>The size the sizer chooses\<close>









text \<open>
  No tolerance holds for every opportunity: with the same prices and gas cost, the
  shortfall exceeds any bound once the reserves are large enough.
\<close>

lemma sizer_shortfall_unbounded:
  "\<exists>uniReserve0 sushiReserve0 r.
      calculateProfit 2000 1000 (997 / 100) 18 uniReserve0 sushiReserve0 = Some r
    \<and> profit r = 8973 / 100
    \<and> T < netProfit 2000 1000 (997 / 100) (maxTradeSize 18 uniReserve0 sushiReserve0) - profit r"
proof -
  define n :: int where "n = \<lceil>\<bar>T\<bar>\<rceil> + 1"
  have n1: "1 \<le> n" by (simp add: n_def)
  have nT: "T < real_of_int n"
  proof -
    have "T \<le> \<bar>T\<bar>" by simp
    also have "\<bar>T\<bar> \<le> real_of_int \<lceil>\<bar>T\<bar>\<rceil>" by (rule le_of_int_ceiling)
    also have "\<dots> < real_of_int n" by (simp add: n_def)
    finally show ?thesis .
  qed
  define res :: int where "res = 1000 * n * 10 ^ 18"
  have f: "formatUnits res 18 = 1000 * real_of_int n" by (simp add: formatUnits_def res_def)
  have cap: "maxTradeSize 18 res res = 30 * real_of_int n" by (simp add: maxTradeSize_def f)
  have sz: "min (sqrt (997 / 100 / ((max 2000 1000 - min 2000 1000) * (1 - 0.003)))) (30 * real_of_int n)
      = (1 / 10 :: real)"
    using n1 by (simp add: sqrt_hundredth min_def)
  have c: "calculateProfit 2000 1000 (997 / 100) 18 res res
     = Some \<lparr>profit = 8973 / 100, roi = 900, optimalSize = 1 / 10, direction = ''Sushi->Uni''\<rparr>"
    using n1 by (simp add: calculateProfit_def f Let_def sqrt_hundredth min_def)
  have "netProfit 2000 1000 (997 / 100) (maxTradeSize 18 res res) - 8973 / 100
      = 29910 * real_of_int n - 997 / 10"
    by (simp add: cap netProfit_def)
  moreover have "real_of_int n \<le> 29910 * real_of_int n - 997 / 10" using n1 by simp
  ultimately have "T < netProfit 2000 1000 (997 / 100) (maxTradeSize 18 res res)
      - profit \<lparr>profit = 8973 / 100, roi = 900, optimalSize = 1 / 10, direction = ''Sushi->Uni''\<rparr>"
    using nT by simp
  moreover have "profit \<lparr>profit = 8973 / 100, roi = 900, optimalSize = 1 / 10,
      direction = ''Sushi->Uni''\<rparr> = (8973 / 100 :: real)" by simp
  ultimately show ?thesis using c by blast
qed

end
